theory Spec2Isabelle
  imports Complex_Main "HOL-Library.Multiset"
begin

section \<open>FastPitch data pipeline: alignment prior, example loading, batch collation\<close>

text \<open>
  The development follows \<^verbatim>\<open>fastpitch/data_function.py\<close>.  Python exceptions are
  values of the type \<open>error\<close>; a function that may raise returns \<open>error + 'a\<close>
  with \<open>Inl\<close> for the exception.  \<open>SampleRateMismatch sr target\<close> is the
  \<^verbatim>\<open>ValueError\<close> with the message \<^verbatim>\<open>"{} SR doesn't match target {} SR"\<close>; \<open>External\<close>
  is any exception raised inside an external collaborator (waveform loader, STFT, text
  encoder, pitch estimator, label upsampler, image zoom); \<open>OtherError\<close> is an exception
  whose class the development does not pin down.
\<close>

datatype error =
    IndexError | RuntimeError | TypeError | AttributeError | UnboundLocalError
  | ValueError | AssertionError | ZeroDivisionError | KeyError | FileNotFoundError
  | SampleRateMismatch int int
  | External | OtherError

subsection \<open>\<^verbatim>\<open>BetaBinomialInterpolator.round\<close>\<close>

text \<open>
  \<^verbatim>\<open>np.round(n / d)\<close> for integers \<open>n\<close> and \<open>d \<noteq> 0\<close>: the quotient rounded to the
  nearest integer, a tie going to the even neighbour.  The quotient is taken exactly;
  for lengths far below \<open>2^52\<close> the double-precision quotient rounds to the same
  integer.
\<close>

definition np_round_div :: "int \<Rightarrow> int \<Rightarrow> int" where
  "np_round_div n d =
     (let q = n div d; r = n mod d in
      if 2 * \<bar>r\<bar> < \<bar>d\<bar> then q
      else if 2 * \<bar>r\<bar> > \<bar>d\<bar> then q + 1
      else if even q then q else q + 1)"

text \<open>
  \<^verbatim>\<open>def round(self, val, to): return max(1, int(np.round((val + 1) / to))) * to\<close>
\<close>

definition interp_round :: "int \<Rightarrow> int \<Rightarrow> error + int" where
  "interp_round val to =
     (if to = 0 then Inl ZeroDivisionError
      else Inr (max 1 (np_round_div (val + 1) to) * to))"

subsection \<open>Tensors and slice assignment\<close>

text \<open>
  A 1-D tensor is the list of its entries.  A 2-D tensor carries its shape, so that a
  tensor with no rows still has a column count; \<open>rows\<close> holds \<open>size0\<close> lists of
  \<open>size1\<close> entries each.  A 3-D batch tensor of shape \<open>(N, R, C)\<close> is the list of its
  \<open>N\<close> slices of shape \<open>(R, C)\<close>.  Element types are not modelled beyond integer
  (\<^verbatim>\<open>LongTensor\<close>) and real (\<^verbatim>\<open>FloatTensor\<close>).
\<close>

record tensor2 =
  size0 :: nat
  size1 :: nat
  rows :: "real list list"

definition wf_tensor2 :: "tensor2 \<Rightarrow> bool" where
  "wf_tensor2 t \<longleftrightarrow>
     length (rows t) = size0 t \<and> list_all (\<lambda>r. length r = size1 t) (rows t)"

definition zeros2 :: "nat \<Rightarrow> nat \<Rightarrow> tensor2" where
  "zeros2 r c = \<lparr>size0 = r, size1 = c, rows = replicate r (replicate c 0)\<rparr>"

definition bindE :: "error + 'a \<Rightarrow> ('a \<Rightarrow> error + 'b) \<Rightarrow> error + 'b" where
  "bindE m f = (case m of Inl e \<Rightarrow> Inl e | Inr x \<Rightarrow> f x)"

fun mapM :: "('a \<Rightarrow> error + 'b) \<Rightarrow> 'a list \<Rightarrow> error + 'b list" where
  "mapM f [] = Inr []"
| "mapM f (x # xs) =
     bindE (f x) (\<lambda>y. bindE (mapM f xs) (\<lambda>ys. Inr (y # ys)))"

text \<open>
  Assignment to a slice copies the value after broadcasting it to the slice's shape: a
  dimension of the value must equal the slice's, or be 1 (then the single entry is
  repeated); anything else is a \<^verbatim>\<open>RuntimeError\<close>.  A slice bound beyond the tensor is
  clipped to the tensor's size.
\<close>

definition expand1 :: "nat \<Rightarrow> 'a list \<Rightarrow> error + 'a list" where
  "expand1 m src =
     (if length src = m then Inr src
      else if length src = 1 then Inr (replicate m (hd src))
      else Inl RuntimeError)"

text \<open>\<^verbatim>\<open>dst[:n] = src\<close> on 1-D tensors.\<close>

definition setitem1 :: "'a list \<Rightarrow> nat \<Rightarrow> 'a list \<Rightarrow> error + 'a list" where
  "setitem1 dst n src =
     (let m = min n (length dst) in
      bindE (expand1 m src) (\<lambda>v. Inr (v @ drop m dst)))"

definition expand2 :: "nat \<Rightarrow> nat \<Rightarrow> tensor2 \<Rightarrow> error + real list list" where
  "expand2 a m src =
     (if (size0 src = a \<or> size0 src = 1) \<and> (size1 src = m \<or> size1 src = 1) then
        Inr (map (\<lambda>r. if size1 src = m then r else replicate m (hd r))
               (if size0 src = a then rows src else replicate a (hd (rows src))))
      else Inl RuntimeError)"

text \<open>\<^verbatim>\<open>dst[:a, :c] = src\<close> on 2-D tensors.\<close>

definition setitem2 :: "tensor2 \<Rightarrow> nat \<Rightarrow> nat \<Rightarrow> tensor2 \<Rightarrow> error + tensor2" where
  "setitem2 dst a c src =
     (let a' = min a (size0 dst); m = min c (size1 dst) in
      bindE (expand2 a' m src) (\<lambda>v.
        Inr (dst\<lparr>rows := map2 (\<lambda>vr dr. vr @ drop m dr) v (take a' (rows dst))
                            @ drop a' (rows dst)\<rparr>)))"

text \<open>\<^verbatim>\<open>t[:, :c]\<close>, the slice read back from a 2-D tensor.\<close>

definition slice_cols :: "tensor2 \<Rightarrow> nat \<Rightarrow> tensor2" where
  "slice_cols t c = \<lparr>size0 = size0 t, size1 = min c (size1 t), rows = map (take c) (rows t)\<rparr>"

text \<open>Python's \<^verbatim>\<open>max\<close> of a non-empty list of sizes.\<close>

definition py_max :: "nat list \<Rightarrow> nat" where
  "py_max xs = foldr max xs 0"

subsection \<open>\<^verbatim>\<open>beta_binomial_prior_distribution\<close>\<close>

text \<open>
  \<^verbatim>\<open>scipy.stats.betabinom(n, a, b).pmf(k)\<close> is the library's beta-binomial probability
  mass function \<open>C(n, k) B(k + a, n - k + b) / B(a, b)\<close> for \<open>0 \<le> k \<le> n\<close> and 0 beyond,
  with \<open>B\<close> the beta function.  The source calls it with \<open>scaling = 1.0\<close>, so \<open>a\<close> and
  \<open>b\<close> are positive whole numbers, where \<open>B(x, y) = (x - 1)! (y - 1)! / (x + y - 1)!\<close>.
  The model computes in exact real arithmetic; floating-point rounding is not modelled.
\<close>

definition beta_fn :: "nat \<Rightarrow> nat \<Rightarrow> real" where
  "beta_fn x y = fact (x - 1) * fact (y - 1) / fact (x + y - 1)"

definition betabinom_pmf :: "nat \<Rightarrow> nat \<Rightarrow> nat \<Rightarrow> nat \<Rightarrow> real" where
  "betabinom_pmf n a b k =
     (if k \<le> n then real (n choose k) * beta_fn (k + a) (n - k + b) / beta_fn a b else 0)"

text \<open>
  A tensor of one or of two dimensions.  \<^verbatim>\<open>np.array\<close> of a list of rows is 2-D, and
  1-D and empty when the list has no row.
\<close>

datatype tensor = Tensor1 "real list" | Tensor2 tensor2

definition np_array :: "real list list \<Rightarrow> tensor" where
  "np_array rs =
     (case rs of
        [] \<Rightarrow> Tensor1 []
      | r # _ \<Rightarrow> Tensor2 \<lparr>size0 = length rs, size1 = length r, rows = rs\<rparr>)"

text \<open>
  Lines 71 to 81, with the default \<open>scaling = 1.0\<close>.  \<^verbatim>\<open>np.arange(0, P)\<close> is
  \<open>[0..<nat P]\<close> and \<^verbatim>\<open>range(1, M+1)\<close> is \<open>[1..<nat (M + 1)]\<close>, both empty for
  non-positive bounds.
\<close>

definition beta_binomial_prior_distribution :: "int \<Rightarrow> int \<Rightarrow> tensor" where
  "beta_binomial_prior_distribution phoneme_count mel_count =
     (let P = phoneme_count; M = mel_count; x = [0..<nat P] in
      np_array (map (\<lambda>i. let a = i; b = nat (M + 1 - int i) in
                            map (\<lambda>k. betabinom_pmf (nat P) a b k) x)
                  [1..<nat (M + 1)]))"

subsection \<open>Tensors of any rank, paths, files\<close>

text \<open>
  What the dataset loads from disk has whatever shape the file holds, so the dataset's
  tensors carry their shape and their entries in row-major order.
\<close>

record ndtensor =
  shape :: "nat list"
  flat :: "real list"

definition nd_of_tensor2 :: "tensor2 \<Rightarrow> ndtensor" where
  "nd_of_tensor2 t = \<lparr>shape = [size0 t, size1 t], flat = concat (rows t)\<rparr>"

definition to_nd :: "tensor \<Rightarrow> ndtensor" where
  "to_nd t = (case t of Tensor1 xs \<Rightarrow> \<lparr>shape = [length xs], flat = xs\<rparr>
                      | Tensor2 t2 \<Rightarrow> nd_of_tensor2 t2)"

text \<open>\<^verbatim>\<open>t.size(-1)\<close>, \<^verbatim>\<open>t.shape[i]\<close>, \<^verbatim>\<open>t[None, :]\<close> and \<^verbatim>\<open>t.T\<close>.\<close>

definition size_last :: "ndtensor \<Rightarrow> error + nat" where
  "size_last t = (if shape t = [] then Inl IndexError else Inr (last (shape t)))"

definition shape_at :: "ndtensor \<Rightarrow> nat \<Rightarrow> error + nat" where
  "shape_at t i = (if i < length (shape t) then Inr (shape t ! i) else Inl IndexError)"

definition unsqueeze0 :: "ndtensor \<Rightarrow> ndtensor" where
  "unsqueeze0 t = t\<lparr>shape := 1 # shape t\<rparr>"

definition tensor_T :: "tensor \<Rightarrow> tensor" where
  "tensor_T t =
     (case t of
        Tensor1 xs \<Rightarrow> Tensor1 xs
      | Tensor2 t2 \<Rightarrow>
          Tensor2 \<lparr>size0 = size1 t2, size1 = size0 t2,
                   rows = map (\<lambda>j. map (\<lambda>r. r ! j) (rows t2)) [0..<size1 t2]\<rparr>)"

text \<open>
  \<^verbatim>\<open>torch.norm(t.float(), dim=0, p=2)\<close>: the Euclidean norm along the first axis.  On
  a tensor without axes it is the absolute value.
\<close>

definition norm_dim0 :: "ndtensor \<Rightarrow> ndtensor" where
  "norm_dim0 t =
     (case shape t of
        [] \<Rightarrow> \<lparr>shape = [], flat = map abs (flat t)\<rparr>
      | n # sh \<Rightarrow>
          let stride = prod_list sh in
          \<lparr>shape = sh,
            flat = map (\<lambda>j. sqrt (\<Sum>i\<leftarrow>[0..<n]. (flat t ! (i * stride + j))\<^sup>2))
                     [0..<stride]\<rparr>)"

text \<open>
  A path is the list of its components, as \<^verbatim>\<open>pathlib.Path(s).parts\<close> gives them for a
  POSIX path: empty components and \<^verbatim>\<open>.\<close> are dropped, a leading slash is the component
  \<^verbatim>\<open>/\<close>.
\<close>

fun split_on :: "char \<Rightarrow> string \<Rightarrow> string \<Rightarrow> string list" where
  "split_on c acc [] = [rev acc]"
| "split_on c acc (x # xs) =
     (if x = c then rev acc # split_on c [] xs else split_on c (x # acc) xs)"

definition Path :: "string \<Rightarrow> string list" where
  "Path s =
     (let comps = filter (\<lambda>p. p \<noteq> [] \<and> p \<noteq> ''.'') (split_on CHR ''/'' [] s) in
      if s \<noteq> [] \<and> hd s = CHR ''/'' then ''/'' # comps else comps)"

text \<open>\<^verbatim>\<open>p.relative_to(base)\<close>: a \<^verbatim>\<open>ValueError\<close> unless \<open>base\<close> is a prefix of \<open>p\<close>.\<close>

definition relative_to :: "string list \<Rightarrow> string list \<Rightarrow> error + string list" where
  "relative_to p base =
     (if take (length base) p = base then Inr (drop (length base) p) else Inl ValueError)"

text \<open>
  \<^verbatim>\<open>p.with_suffix(sfx)\<close>: a \<^verbatim>\<open>ValueError\<close> for a path without a name; the old suffix
  starts at the last dot of the name unless that dot is the name's first or last
  character.
\<close>

definition rfind_dot :: "string \<Rightarrow> nat option" where
  "rfind_dot name =
     (case filter (\<lambda>i. name ! i = CHR ''.'') (rev [0..<length name]) of
        [] \<Rightarrow> None | i # _ \<Rightarrow> Some i)"

definition with_suffix :: "string list \<Rightarrow> string \<Rightarrow> error + string list" where
  "with_suffix p sfx =
     (if p = [] \<or> last p = ''/'' then Inl ValueError
      else let name = last p;
               stem = (case rfind_dot name of
                         None \<Rightarrow> name
                       | Some i \<Rightarrow> if 0 < i \<and> i < length name - 1 then take i name else name)
           in Inr (butlast p @ [stem @ sfx]))"

text \<open>\<^verbatim>\<open>Path(base, p)\<close>: an absolute second argument replaces the first.\<close>

definition path_join :: "string list \<Rightarrow> string list \<Rightarrow> string list" where
  "path_join base p = (if p \<noteq> [] \<and> hd p = ''/'' then p else base @ p)"

text \<open>
  The file system: the tensor files by path, and the directories.  Files and directories
  do not collide and every access is permitted; a missing file is the only failure.
\<close>

record filesystem =
  files :: "string list \<rightharpoonup> ndtensor"
  dirs :: "string list set"

definition torch_load :: "filesystem \<Rightarrow> string list \<Rightarrow> error + ndtensor" where
  "torch_load fs p = (case files fs p of None \<Rightarrow> Inl FileNotFoundError | Some t \<Rightarrow> Inr t)"

definition is_file :: "filesystem \<Rightarrow> string list \<Rightarrow> bool" where
  "is_file fs p \<longleftrightarrow> files fs p \<noteq> None"

text \<open>\<^verbatim>\<open>p.parent.mkdir(parents=True, exist_ok=True)\<close> followed by \<^verbatim>\<open>torch.save(t, p)\<close>.\<close>

definition mkdir_parents :: "filesystem \<Rightarrow> string list \<Rightarrow> filesystem" where
  "mkdir_parents fs d = fs\<lparr>dirs := dirs fs \<union> set (map (\<lambda>n. take n d) [1..<length d + 1])\<rparr>"

definition torch_save :: "filesystem \<Rightarrow> ndtensor \<Rightarrow> string list \<Rightarrow> filesystem" where
  "torch_save fs t p = fs\<lparr>files := (files fs)(p \<mapsto> t)\<rparr>"

definition save_cached :: "filesystem \<Rightarrow> ndtensor \<Rightarrow> string list \<Rightarrow> filesystem" where
  "save_cached fs t cached_fpath = torch_save (mkdir_parents fs (butlast cached_fpath)) t cached_fpath"

subsection \<open>\<^verbatim>\<open>BetaBinomialInterpolator.__call__\<close>\<close>

text \<open>
  The external collaborators of the dataset; \<open>None\<close> is an exception raised inside one.
  \<open>zoom\<close> is \<^verbatim>\<open>scipy.ndimage.zoom\<close> with \<open>order = 1\<close>; \<open>estimate_pitch\<close> takes the
  waveform path and the frame count, the dataset's other pitch settings being fixed;
  \<open>parse_int\<close> is Python's \<^verbatim>\<open>int\<close> on a string.
\<close>

record env =
  load_wav_to_torch :: "string \<Rightarrow> (real list \<times> int) option"
  mel_spectrogram :: "real list \<Rightarrow> ndtensor option"
  mel_spectrogram_ds :: "real list \<Rightarrow> ndtensor option"
  encode_text :: "string \<Rightarrow> (int list \<times> nat list) option"
  estimate_pitch :: "string \<Rightarrow> nat \<Rightarrow> ndtensor option"
  upsample_word_label :: "nat list \<Rightarrow> ndtensor \<Rightarrow> int list option"
  zoom :: "ndtensor \<Rightarrow> real \<times> real \<Rightarrow> ndtensor option"
  parse_int :: "string \<Rightarrow> int option"

record interpolator =
  round_mel_len_to :: int
  round_text_len_to :: int

text \<open>
  Lines 62 to 68.  The bank memoises \<^verbatim>\<open>beta_binomial_prior_distribution\<close>, a function
  of its arguments alone, so a call of the bank is a call of that function.
\<close>

definition interpolator_call :: "env \<Rightarrow> interpolator \<Rightarrow> int \<Rightarrow> int \<Rightarrow> error + ndtensor" where
  "interpolator_call e self w h =
     bindE (interp_round w (round_mel_len_to self)) (\<lambda>bw.
     bindE (interp_round h (round_text_len_to self)) (\<lambda>bh.
     case zoom e (to_nd (tensor_T (beta_binomial_prior_distribution bw bh)))
            (real_of_int w / real_of_int bw, real_of_int h / real_of_int bh) of
       None \<Rightarrow> Inl External
     | Some ret \<Rightarrow>
         bindE (shape_at ret 0) (\<lambda>s0.
         if int s0 \<noteq> w then Inl AssertionError
         else bindE (shape_at ret 1) (\<lambda>s1.
         if int s1 \<noteq> h then Inl AssertionError else Inr ret))))"

subsection \<open>\<^verbatim>\<open>TTSDataset\<close>\<close>

text \<open>
  A corpus entry is a dictionary, its items in insertion order.  The dataset is the
  object's attributes after \<^verbatim>\<open>__init__\<close>: \<open>dataset_path\<close> is empty when the source's is
  \<^verbatim>\<open>None\<close> or empty (both are false there); \<open>max_wav_value\<close> is the constructor's
  argument, stored as an attribute only when mels are computed from waveforms;
  \<open>stft_sampling_rate\<close> is \<^verbatim>\<open>self.stft.sampling_rate\<close>; the sampling rate of the
  downsampled STFT is 800.
\<close>

type_synonym entry = "(string \<times> string) list"

record dataset =
  dataset_path :: string
  audiopaths_and_text :: "entry list"
  n_speakers :: int
  load_mel_from_disk :: bool
  max_wav_value :: "real option"
  stft_sampling_rate :: int
  mels_downsampled :: bool
  load_ds_mel_from_disk :: bool
  load_pitch_from_disk :: bool
  cwt_accent :: bool
  load_cwt_from_disk :: bool
  prepend_space_to_text :: bool
  append_space_to_text :: bool
  pitch_tmp_dir :: "string option"
  betabinomial_tmp_dir :: "string option"
  use_betabinomial_interpolator :: bool
  betabinomial_interpolator :: interpolator

text \<open>\<^verbatim>\<open>self.audiopaths_and_text[index]\<close> and \<^verbatim>\<open>entry[key]\<close>.\<close>

definition get_entry :: "dataset \<Rightarrow> nat \<Rightarrow> error + entry" where
  "get_entry self index =
     (if index < length (audiopaths_and_text self)
      then Inr (audiopaths_and_text self ! index) else Inl IndexError)"

definition get_key :: "entry \<Rightarrow> string \<Rightarrow> error + string" where
  "get_key entry key = (case map_of entry key of None \<Rightarrow> Inl KeyError | Some v \<Rightarrow> Inr v)"

text \<open>
  Lines 247 to 252: the mel-spectrogram of a waveform scaled by \<open>max_wav_value\<close>;
  dividing by \<^verbatim>\<open>None\<close> is a \<^verbatim>\<open>TypeError\<close>.
\<close>

definition compute_mel ::
  "(real list \<Rightarrow> ndtensor option) \<Rightarrow> real option \<Rightarrow> real list \<Rightarrow> error + ndtensor" where
  "compute_mel stft mwv audio =
     (case mwv of
        None \<Rightarrow> Inl TypeError
      | Some v \<Rightarrow>
          let audio_norm = map (\<lambda>x. x / v) audio in
          (case stft audio_norm of None \<Rightarrow> Inl External | Some melspec \<Rightarrow> Inr melspec))"

text \<open>Lines 241 to 259.\<close>

definition get_mel :: "env \<Rightarrow> dataset \<Rightarrow> filesystem \<Rightarrow> string \<Rightarrow> error + ndtensor" where
  "get_mel e self fs filename =
     (if \<not> load_mel_from_disk self then
        (case load_wav_to_torch e filename of
           None \<Rightarrow> Inl External
         | Some (audio, sampling_rate) \<Rightarrow>
             if sampling_rate \<noteq> stft_sampling_rate self
             then Inl (SampleRateMismatch sampling_rate (stft_sampling_rate self))
             else compute_mel (mel_spectrogram e) (max_wav_value self) audio)
      else torch_load fs (Path filename))"

text \<open>
  Lines 261 to 278.  The method reads \<^verbatim>\<open>self.max_wav_value\<close>, an attribute the
  constructor sets only when \<open>load_mel_from_disk\<close> is off.
\<close>

definition get_ds_mel :: "env \<Rightarrow> dataset \<Rightarrow> filesystem \<Rightarrow> string \<Rightarrow> error + ndtensor" where
  "get_ds_mel e self fs filename =
     (if \<not> load_ds_mel_from_disk self then
        (case load_wav_to_torch e filename of
           None \<Rightarrow> Inl External
         | Some (audio, sampling_rate) \<Rightarrow>
             if sampling_rate \<noteq> 800 then Inl (SampleRateMismatch sampling_rate 800)
             else if load_mel_from_disk self then Inl AttributeError
             else compute_mel (mel_spectrogram_ds e) (max_wav_value self) audio)
      else torch_load fs (Path filename))"

text \<open>
  Lines 280 to 295.  With \<open>cwt_accent\<close> the encoder returns the pair of the token ids and
  the per-word counts, so \<^verbatim>\<open>encode_text("A A")[1]\<close> is the list of counts and not a
  token; a \<^verbatim>\<open>LongTensor\<close> of a list holding it raises.
\<close>

definition get_text :: "env \<Rightarrow> dataset \<Rightarrow> string \<Rightarrow> error + (int list \<times> nat list option)" where
  "get_text e self txt =
     (case encode_text e txt of
        None \<Rightarrow> Inl External
      | Some (ids, counts) \<Rightarrow>
          let text_info = (if cwt_accent self then Some counts else None) in
          (case encode_text e ''A A'' of
             None \<Rightarrow> Inl External
           | Some (ids_space, counts_space) \<Rightarrow>
               if cwt_accent self then
                 (if prepend_space_to_text self \<or> append_space_to_text self
                  then Inl OtherError else Inr (ids, text_info))
               else if length ids_space < 2 then Inl IndexError
               else
                 let space = [ids_space ! 1];
                     t1 = (if prepend_space_to_text self then space @ ids else ids);
                     t2 = (if append_space_to_text self then t1 @ space else t1)
                 in Inr (t2, text_info)))"

text \<open>
  Lines 303 to 307: the cache file of the alignment prior.  The entry is a dictionary,
  and unpacking a dictionary yields its keys: \<open>audiopath\<close> is the first key of the entry.
\<close>

definition prior_cache_path :: "dataset \<Rightarrow> string \<Rightarrow> nat \<Rightarrow> error + string list" where
  "prior_cache_path self tmp_dir index =
     bindE (get_entry self index) (\<lambda>entry.
     case entry of
       [] \<Rightarrow> Inl ValueError
     | (audiopath, _) # _ \<Rightarrow>
         bindE (if dataset_path self \<noteq> [] then relative_to (Path audiopath) (Path (dataset_path self))
                else Inr (Path audiopath)) (\<lambda>fname.
         bindE (with_suffix fname ''.pt'') (\<lambda>fname.
         Inr (path_join (Path tmp_dir) fname))))"

text \<open>
  The cache file in the specification's words, for comparison with \<open>prior_cache_path\<close>:
  the example's audio path (the entry's value at \<^verbatim>\<open>'mels'\<close>, as \<^verbatim>\<open>get_pitch\<close> reads it on
  line 321) relative to the dataset root, its extension replaced by \<^verbatim>\<open>.pt\<close>, under the
  cache root.
\<close>

definition spec_prior_cache_path :: "dataset \<Rightarrow> string \<Rightarrow> nat \<Rightarrow> error + string list" where
  "spec_prior_cache_path self tmp_dir index =
     bindE (get_entry self index) (\<lambda>entry.
     bindE (get_key entry ''mels'') (\<lambda>audiopath.
     bindE (if dataset_path self \<noteq> [] then relative_to (Path audiopath) (Path (dataset_path self))
            else Inr (Path audiopath)) (\<lambda>fname.
     bindE (with_suffix fname ''.pt'') (\<lambda>fname.
     Inr (path_join (Path tmp_dir) fname)))))"

text \<open>Lines 297 to 318.  The result comes with the file system after the call.\<close>

definition get_prior ::
  "env \<Rightarrow> dataset \<Rightarrow> filesystem \<Rightarrow> nat \<Rightarrow> int \<Rightarrow> int \<Rightarrow> (error + ndtensor) \<times> filesystem" where
  "get_prior e self fs index mel_len text_len =
     (if use_betabinomial_interpolator self then
        (interpolator_call e (betabinomial_interpolator self) mel_len text_len, fs)
      else
        (case betabinomial_tmp_dir self of
           None \<Rightarrow> (Inr (to_nd (beta_binomial_prior_distribution text_len mel_len)), fs)
         | Some tmp_dir \<Rightarrow>
             (case prior_cache_path self tmp_dir index of
                Inl err \<Rightarrow> (Inl err, fs)
              | Inr cached_fpath \<Rightarrow>
                  if is_file fs cached_fpath then (torch_load fs cached_fpath, fs)
                  else
                    let attn_prior = to_nd (beta_binomial_prior_distribution text_len mel_len)
                    in (Inr attn_prior, save_cached fs attn_prior cached_fpath))))"

text \<open>
  Lines 345 to 348: the waveform path.  \<^verbatim>\<open>re.sub('/mels/', '/wavs/', wav)\<close> replaces
  every occurrence; in \<^verbatim>\<open>re.sub('.pt$', '.wav', wav)\<close> the dot stands for any character
  but a newline and the dollar for the end of the string or the place before a final
  newline.
\<close>

definition endswith :: "string \<Rightarrow> string \<Rightarrow> bool" where
  "endswith s suf \<longleftrightarrow> length suf \<le> length s \<and> drop (length s - length suf) s = suf"

fun sub_mels :: "string \<Rightarrow> string" where
  "sub_mels (a # b # c # d # e # f # cs) =
     (if [a, b, c, d, e, f] = ''/mels/'' then ''/wavs/'' @ sub_mels cs
      else a # sub_mels (b # c # d # e # f # cs))"
| "sub_mels cs = cs"

definition sub_pt :: "string \<Rightarrow> string" where
  "sub_pt wav =
     (let n = length wav; nl = char_of (10 :: nat) in
      if 3 \<le> n \<and> drop (n - 2) wav = ''pt'' \<and> wav ! (n - 3) \<noteq> nl
      then take (n - 3) wav @ ''.wav''
      else if 4 \<le> n \<and> drop (n - 3) wav = ''pt'' @ [nl] \<and> wav ! (n - 4) \<noteq> nl
      then take (n - 4) wav @ ''.wav'' @ [nl]
      else wav)"

definition wav_path :: "string \<Rightarrow> string" where
  "wav_path audiopath =
     (if endswith audiopath ''.wav'' then audiopath else sub_pt (sub_mels audiopath))"

text \<open>Lines 320 to 356.\<close>

definition get_pitch ::
  "env \<Rightarrow> dataset \<Rightarrow> filesystem \<Rightarrow> nat \<Rightarrow> nat \<Rightarrow> (error + ndtensor) \<times> filesystem" where
  "get_pitch e self fs index mel_len =
     (case bindE (get_entry self index) (\<lambda>entry.
           bindE (get_key entry ''mels'') (\<lambda>audiopath.
           bindE (if n_speakers self > 1
                  then bindE (get_key entry ''speaker'') (\<lambda>s.
                         case parse_int e s of None \<Rightarrow> Inl ValueError | Some spk \<Rightarrow> Inr spk)
                  else Inr 0) (\<lambda>spk. Inr (entry, audiopath)))) of
        Inl err \<Rightarrow> (Inl err, fs)
      | Inr (entry, audiopath) \<Rightarrow>
          if load_pitch_from_disk self then
            (bindE (get_key entry ''pitch'') (\<lambda>pitchpath. torch_load fs (Path pitchpath)), fs)
          else
            (case (case pitch_tmp_dir self of
                     None \<Rightarrow> Inr None
                   | Some tmp_dir \<Rightarrow>
                       bindE (if dataset_path self \<noteq> []
                              then relative_to (Path audiopath) (Path (dataset_path self))
                              else Inr (Path audiopath)) (\<lambda>fname.
                       bindE (with_suffix fname ''.pt'') (\<lambda>fname_method.
                       Inr (Some (path_join (Path tmp_dir) fname_method))))) of
               Inl err \<Rightarrow> (Inl err, fs)
             | Inr cached \<Rightarrow>
                 (case (case cached of None \<Rightarrow> None
                        | Some cached_fpath \<Rightarrow> files fs cached_fpath) of
                    Some t \<Rightarrow> (Inr t, fs)
                  | None \<Rightarrow>
                      (case estimate_pitch e (wav_path audiopath) mel_len of
                         None \<Rightarrow> (Inl External, fs)
                       | Some pitch_mel \<Rightarrow>
                           (Inr pitch_mel,
                            case cached of
                              None \<Rightarrow> fs
                            | Some cached_fpath \<Rightarrow> save_cached fs pitch_mel cached_fpath)))))"

text \<open>Lines 358 to 372.\<close>

definition get_cwt_labels ::
  "env \<Rightarrow> dataset \<Rightarrow> filesystem \<Rightarrow> nat \<Rightarrow> nat list option \<Rightarrow> error + int list option" where
  "get_cwt_labels e self fs index text_info =
     (if load_cwt_from_disk self then
        bindE (get_entry self index) (\<lambda>entry.
        bindE (get_key entry ''cwt_accent'') (\<lambda>cwt_path.
        bindE (torch_load fs (Path cwt_path)) (\<lambda>cwt_labels.
        case text_info of
          None \<Rightarrow> Inl External
        | Some counts \<Rightarrow>
            (case upsample_word_label e counts cwt_labels of
               None \<Rightarrow> Inl External
             | Some cwt_upsampled \<Rightarrow> Inr (Some cwt_upsampled)))))
      else Inr None)"

text \<open>The tuple returned by \<^verbatim>\<open>__getitem__\<close>, fields in the tuple's order.\<close>

record item =
  item_text :: "int list"
  item_mel :: ndtensor
  item_len_text :: nat
  item_pitch :: ndtensor
  item_energy :: ndtensor
  item_speaker :: "int option"
  item_attn_prior :: ndtensor
  item_audiopath :: string
  item_cwt_acc :: "int list option"
  item_ds_mel :: "ndtensor option"

text \<open>
  Lines 194 to 206: the entry's fields, the mel, the encoded text, and \<^verbatim>\<open>mel.size(-1)\<close>,
  the argument of the pitch lookup.
\<close>

definition getitem_inputs ::
  "env \<Rightarrow> dataset \<Rightarrow> filesystem \<Rightarrow> nat
     \<Rightarrow> error + (entry \<times> string \<times> int option \<times> ndtensor \<times> int list \<times> nat list option \<times> nat)" where
  "getitem_inputs e self fs index =
     bindE (get_entry self index) (\<lambda>entry.
     bindE (get_key entry ''mels'') (\<lambda>audiopath.
     bindE (get_key entry ''text'') (\<lambda>txt.
     bindE (if n_speakers self > 1
            then bindE (get_key entry ''speaker'') (\<lambda>s.
                   case parse_int e s of None \<Rightarrow> Inl ValueError | Some spk \<Rightarrow> Inr (Some spk))
            else Inr None) (\<lambda>spk.
     bindE (get_mel e self fs audiopath) (\<lambda>mel'.
     bindE (get_text e self txt) (\<lambda>(text', text_info).
     bindE (size_last mel') (\<lambda>mel_T.
     Inr (entry, audiopath, spk, mel', text', text_info, mel_T))))))))"

text \<open>
  Lines 212 to 236: the optional fields, the two assertions, the reshaping of a 1-D
  pitch, and the tuple.  With \<open>mels_downsampled\<close> the variable \<open>audiopath\<close> is rebound to
  the downsampled mel's path, which is then the path returned.
\<close>

definition getitem_finish ::
  "env \<Rightarrow> dataset \<Rightarrow> filesystem \<Rightarrow> nat \<Rightarrow> entry \<Rightarrow> string \<Rightarrow> int option \<Rightarrow> ndtensor
     \<Rightarrow> int list \<Rightarrow> nat list option \<Rightarrow> nat \<Rightarrow> ndtensor \<Rightarrow> ndtensor \<Rightarrow> ndtensor \<Rightarrow> error + item" where
  "getitem_finish e self fs index entry audiopath spk mel' text' text_info mel_T
       pitch0 energy' attn_prior' =
     bindE (if cwt_accent self
            then get_cwt_labels e self fs index text_info
            else Inr None) (\<lambda>cwt_acc'.
     bindE (if mels_downsampled self
            then bindE (get_key entry ''mels_ds'') (\<lambda>audiopath_ds.
                 bindE (get_ds_mel e self fs audiopath_ds) (\<lambda>d.
                 Inr (audiopath_ds, Some d)))
            else Inr (audiopath, None)) (\<lambda>(audiopath', ds_mel').
     bindE (size_last pitch0) (\<lambda>pitch_T.
     if pitch_T \<noteq> mel_T then Inl AssertionError
     else bindE (size_last energy') (\<lambda>energy_T.
     let pitch' = (if length (shape pitch0) = 1 then unsqueeze0 pitch0 else pitch0)
     in Inr \<lparr>item_text = text', item_mel = mel',
             item_len_text = length text', item_pitch = pitch',
             item_energy = energy', item_speaker = spk,
             item_attn_prior = attn_prior',
             item_audiopath = audiopath', item_cwt_acc = cwt_acc',
             item_ds_mel = ds_mel'\<rparr>))))"

text \<open>
  Lines 191 to 236.  A step that raises ends the call with the file system as the earlier
  steps left it.
\<close>

definition getitem :: "env \<Rightarrow> dataset \<Rightarrow> filesystem \<Rightarrow> nat \<Rightarrow> (error + item) \<times> filesystem" where
  "getitem e self fs index =
     (case getitem_inputs e self fs index of
        Inl err \<Rightarrow> (Inl err, fs)
      | Inr (entry, audiopath, spk, mel', text', text_info, mel_T) \<Rightarrow>
          (case get_pitch e self fs index mel_T of
             (Inl err, fs1) \<Rightarrow> (Inl err, fs1)
           | (Inr pitch0, fs1) \<Rightarrow>
               let energy' = norm_dim0 mel' in
               (case shape_at mel' 1 of
                  Inl err \<Rightarrow> (Inl err, fs1)
                | Inr mel_len \<Rightarrow>
                    (case get_prior e self fs1 index (int mel_len) (int (length text')) of
                       (Inl err, fs2) \<Rightarrow> (Inl err, fs2)
                     | (Inr attn_prior', fs2) \<Rightarrow>
                         (getitem_finish e self fs2 index entry audiopath spk mel' text'
                            text_info mel_T pitch0 energy' attn_prior', fs2)))))"

subsection \<open>\<^verbatim>\<open>TTSCollate.__call__\<close>\<close>

text \<open>
  An example is the tuple returned by \<^verbatim>\<open>TTSDataset.__getitem__\<close>, fields in the
  tuple's order (positions 0 to 9).
\<close>

record example =
  text_ids :: "int list"
  mel :: tensor2
  len_text :: nat
  pitch :: tensor2
  energy :: "real list"
  speaker :: "int option"
  attn_prior :: tensor2
  audiopath :: string
  cwt_acc :: "int list option"
  ds_mel :: "tensor2 option"

text \<open>The tuple returned by the collate function, fields in the tuple's order.\<close>

record batch =
  text_padded :: "int list list"
  input_lengths :: "nat list"
  mel_padded :: "tensor2 list"
  output_lengths :: "nat list"
  len_x :: "real list"
  pitch_padded :: "tensor2 list"
  energy_padded :: "real list list"
  speakers :: "int list option"
  attn_prior_padded :: "tensor2 list"
  audiopaths :: "string list"
  cwt_padded :: "int list list option"
  ds_mel_padded :: "tensor2 list option"
  output_lengths_ds :: "nat list"

text \<open>
  \<^verbatim>\<open>torch.sort(torch.LongTensor([len(x[0]) for x in batch]), dim=0, descending=True)\<close>:
  the indices in descending order of text length; equal lengths keep their input order
  here (torch leaves their order open).
\<close>

definition ids_sorted_decreasing :: "example list \<Rightarrow> nat list" where
  "ids_sorted_decreasing batch =
     sort_key (\<lambda>i. - int (length (text_ids (batch ! i)))) [0..<length batch]"

text \<open>Lines 393 to 402: the sorted lengths and the zero-padded text rows.\<close>

definition collate_text :: "example list \<Rightarrow> error + (int list list \<times> nat list \<times> nat list)" where
  "collate_text batch =
     (let ids = ids_sorted_decreasing batch;
          input_lengths' = map (\<lambda>i. length (text_ids (batch ! i))) ids
      in case input_lengths' of
           [] \<Rightarrow> Inl IndexError
         | max_input_len # _ \<Rightarrow>
             bindE (mapM (\<lambda>i. setitem1 (replicate max_input_len 0)
                                 (length (text_ids (batch ! i))) (text_ids (batch ! i))) ids)
               (\<lambda>text_padded'. Inr (text_padded', input_lengths', ids)))"

text \<open>Lines 405 to 415: the zero-padded mel-spectrograms and their frame counts.\<close>

definition collate_mel :: "example list \<Rightarrow> nat list \<Rightarrow> error + (tensor2 list \<times> nat list \<times> nat)" where
  "collate_mel batch ids =
     (let num_mels = size0 (mel (batch ! 0));
          max_target_len = py_max (map (\<lambda>x. size1 (mel x)) batch)
      in bindE (mapM (\<lambda>i. setitem2 (zeros2 num_mels max_target_len)
                             num_mels (size1 (mel (batch ! i))) (mel (batch ! i))) ids)
           (\<lambda>mel_padded'.
              Inr (mel_padded', map (\<lambda>i. size1 (mel (batch ! i))) ids, max_target_len)))"

text \<open>
  Lines 417 to 427: pitch and energy.  \<^verbatim>\<open>pitch_padded[:, 0, :]\<close> is an
  \<^verbatim>\<open>IndexError\<close> when the first example's pitch has no rows.
\<close>

definition collate_pitch_energy ::
  "example list \<Rightarrow> nat list \<Rightarrow> nat \<Rightarrow> error + (tensor2 list \<times> real list list)" where
  "collate_pitch_energy batch ids max_target_len =
     (let n_formants = size0 (pitch (batch ! 0)) in
      if n_formants = 0 then Inl IndexError
      else bindE (mapM (\<lambda>i.
               bindE (setitem2 (zeros2 n_formants max_target_len)
                        n_formants (size1 (pitch (batch ! i))) (pitch (batch ! i)))
                 (\<lambda>p. bindE (setitem1 (replicate max_target_len 0)
                                (length (energy (batch ! i))) (energy (batch ! i)))
                   (\<lambda>e. Inr (p, e)))) ids)
             (\<lambda>pe. Inr (map fst pe, map snd pe)))"

text \<open>Lines 429 to 434: the speaker ids; storing \<^verbatim>\<open>None\<close> in a tensor is a \<^verbatim>\<open>TypeError\<close>.\<close>

definition collate_speaker :: "example list \<Rightarrow> nat list \<Rightarrow> error + int list option" where
  "collate_speaker batch ids =
     (case speaker (batch ! 0) of
        None \<Rightarrow> Inr None
      | Some _ \<Rightarrow>
          bindE (mapM (\<lambda>i. case speaker (batch ! i) of
                              None \<Rightarrow> Inl TypeError | Some s \<Rightarrow> Inr s) ids)
            (\<lambda>sp. Inr (Some sp)))"

text \<open>Lines 436 to 441: the alignment priors.\<close>

definition collate_attn_prior ::
  "example list \<Rightarrow> nat list \<Rightarrow> nat \<Rightarrow> nat \<Rightarrow> error + tensor2 list" where
  "collate_attn_prior batch ids max_target_len max_input_len =
     mapM (\<lambda>i. setitem2 (zeros2 max_target_len max_input_len)
                  (size0 (attn_prior (batch ! i))) (size1 (attn_prior (batch ! i)))
                  (attn_prior (batch ! i))) ids"

text \<open>
  Lines 450 to 457: the word-level labels; \<^verbatim>\<open>cwt.size(0)\<close> on \<^verbatim>\<open>None\<close> is an
  \<^verbatim>\<open>AttributeError\<close>.
\<close>

definition collate_cwt ::
  "example list \<Rightarrow> nat list \<Rightarrow> nat \<Rightarrow> error + int list list option" where
  "collate_cwt batch ids max_input_len =
     (case cwt_acc (batch ! 0) of
        None \<Rightarrow> Inr None
      | Some _ \<Rightarrow>
          bindE (mapM (\<lambda>i. case cwt_acc (batch ! i) of
                              None \<Rightarrow> Inl AttributeError
                            | Some cwt \<Rightarrow>
                                setitem1 (replicate max_input_len 0) (length cwt) cwt) ids)
            (\<lambda>c. Inr (Some c)))"

text \<open>
  Lines 463 to 477: the downsampled mels.  The second component is the local variable
  \<^verbatim>\<open>output_lengths_ds\<close>, \<open>None\<close> while it is unbound: the \<^verbatim>\<open>else\<close> branch assigns
  \<^verbatim>\<open>ds_mel_padded\<close> only.
\<close>

definition collate_ds_mel ::
  "example list \<Rightarrow> nat list \<Rightarrow> error + (tensor2 list option \<times> nat list option)" where
  "collate_ds_mel batch ids =
     (case ds_mel (batch ! 0) of
        None \<Rightarrow> Inr (None, None)
      | Some ds0 \<Rightarrow>
          let num_ds_mels = size0 ds0 in
          bindE (mapM (\<lambda>x. case ds_mel x of
                              None \<Rightarrow> Inl AttributeError | Some d \<Rightarrow> Inr (size1 d)) batch)
            (\<lambda>lens_ds.
               let max_target_len_ds = py_max lens_ds in
               bindE (mapM (\<lambda>i. case ds_mel (batch ! i) of
                                   None \<Rightarrow> Inl AttributeError
                                 | Some d \<Rightarrow>
                                     bindE (setitem2 (zeros2 num_ds_mels max_target_len_ds)
                                              num_ds_mels (size1 d) d)
                                       (\<lambda>p. Inr (p, size1 d))) ids)
                 (\<lambda>pl. Inr (Some (map fst pl), Some (map snd pl)))))"

text \<open>
  The whole call.  Reading the unbound \<^verbatim>\<open>output_lengths_ds\<close> in the \<^verbatim>\<open>return\<close>
  statement is an \<^verbatim>\<open>UnboundLocalError\<close>.
\<close>

definition collate :: "example list \<Rightarrow> error + batch" where
  "collate batch =
     bindE (collate_text batch) (\<lambda>(text_padded', input_lengths', ids).
     let max_input_len = hd input_lengths' in
     bindE (collate_mel batch ids) (\<lambda>(mel_padded', output_lengths', max_target_len).
     bindE (collate_pitch_energy batch ids max_target_len) (\<lambda>(pitch_padded', energy_padded').
     bindE (collate_speaker batch ids) (\<lambda>speaker'.
     bindE (collate_attn_prior batch ids max_target_len max_input_len) (\<lambda>attn_prior_padded'.
     let len_x' = map (\<lambda>x. real (len_text x)) batch;
         audiopaths' = map (\<lambda>i. audiopath (batch ! i)) ids in
     bindE (collate_cwt batch ids max_input_len) (\<lambda>cwt_padded'.
     bindE (collate_ds_mel batch ids) (\<lambda>(ds_mel_padded', bound_output_lengths_ds).
     case bound_output_lengths_ds of
       None \<Rightarrow> Inl UnboundLocalError
     | Some output_lengths_ds' \<Rightarrow>
         Inr \<lparr>text_padded = text_padded', input_lengths = input_lengths',
              mel_padded = mel_padded', output_lengths = output_lengths', len_x = len_x',
              pitch_padded = pitch_padded', energy_padded = energy_padded',
              speakers = speaker', attn_prior_padded = attn_prior_padded',
              audiopaths = audiopaths', cwt_padded = cwt_padded',
              ds_mel_padded = ds_mel_padded', output_lengths_ds = output_lengths_ds'\<rparr>)))))))"

text \<open>The largest text length of a batch: \<open>L_max\<close>.\<close>

definition max_text_len :: "example list \<Rightarrow> nat" where
  "max_text_len batch = Max (set (map (\<lambda>x. length (text_ids x)) batch))"

subsection \<open>Sample batches\<close>

text \<open>
  Three examples with texts of 5, 3 and 8 tokens and mels of two channels, each with a
  downsampled mel; \<open>ex_mono\<close> has a mel of one channel; \<open>ex_default\<close> is an example of
  the default configuration, with no downsampled mel.
\<close>

definition ex_a :: example where
  "ex_a = \<lparr>text_ids = [11, 12, 13, 14, 15],
           mel = \<lparr>size0 = 2, size1 = 2, rows = [[1, 2], [3, 4]]\<rparr>,
           len_text = 5,
           pitch = \<lparr>size0 = 1, size1 = 2, rows = [[7, 8]]\<rparr>,
           energy = [5, 6],
           speaker = None,
           attn_prior = \<lparr>size0 = 2, size1 = 5, rows = [[1, 0, 0, 0, 0], [0, 0, 0, 0, 1]]\<rparr>,
           audiopath = ''wavs/a.wav'',
           cwt_acc = None,
           ds_mel = Some \<lparr>size0 = 1, size1 = 1, rows = [[9]]\<rparr>\<rparr>"

definition ex_b :: example where
  "ex_b = \<lparr>text_ids = [21, 22, 23],
           mel = \<lparr>size0 = 2, size1 = 3, rows = [[1, 2, 3], [4, 5, 6]]\<rparr>,
           len_text = 3,
           pitch = \<lparr>size0 = 1, size1 = 3, rows = [[7, 8, 9]]\<rparr>,
           energy = [4, 5, 6],
           speaker = None,
           attn_prior = \<lparr>size0 = 3, size1 = 3, rows = [[1, 0, 0], [0, 1, 0], [0, 0, 1]]\<rparr>,
           audiopath = ''wavs/b.wav'',
           cwt_acc = None,
           ds_mel = Some \<lparr>size0 = 1, size1 = 2, rows = [[9, 8]]\<rparr>\<rparr>"

definition ex_c :: example where
  "ex_c = \<lparr>text_ids = [31, 32, 33, 34, 35, 36, 37, 38],
           mel = \<lparr>size0 = 2, size1 = 1, rows = [[1], [2]]\<rparr>,
           len_text = 8,
           pitch = \<lparr>size0 = 1, size1 = 1, rows = [[7]]\<rparr>,
           energy = [3],
           speaker = None,
           attn_prior = \<lparr>size0 = 1, size1 = 8, rows = [[1, 0, 0, 0, 0, 0, 0, 0]]\<rparr>,
           audiopath = ''wavs/c.wav'',
           cwt_acc = None,
           ds_mel = Some \<lparr>size0 = 1, size1 = 1, rows = [[7]]\<rparr>\<rparr>"

definition ex_mono :: example where
  "ex_mono = \<lparr>text_ids = [21, 22, 23],
           mel = \<lparr>size0 = 1, size1 = 3, rows = [[1, 2, 3]]\<rparr>,
           len_text = 3,
           pitch = \<lparr>size0 = 1, size1 = 3, rows = [[7, 8, 9]]\<rparr>,
           energy = [1, 2, 3],
           speaker = None,
           attn_prior = \<lparr>size0 = 3, size1 = 3, rows = [[1, 0, 0], [0, 1, 0], [0, 0, 1]]\<rparr>,
           audiopath = ''wavs/m.wav'',
           cwt_acc = None,
           ds_mel = Some \<lparr>size0 = 1, size1 = 2, rows = [[9, 8]]\<rparr>\<rparr>"

definition ex_default :: example where
  "ex_default = \<lparr>text_ids = [11, 12, 13, 14, 15],
           mel = \<lparr>size0 = 2, size1 = 2, rows = [[1, 2], [3, 4]]\<rparr>,
           len_text = 5,
           pitch = \<lparr>size0 = 1, size1 = 2, rows = [[7, 8]]\<rparr>,
           energy = [5, 6],
           speaker = None,
           attn_prior = \<lparr>size0 = 2, size1 = 5, rows = [[1, 0, 0, 0, 0], [0, 0, 0, 0, 1]]\<rparr>,
           audiopath = ''wavs/a.wav'',
           cwt_acc = None,
           ds_mel = None\<rparr>"

subsection \<open>A sample dataset\<close>

text \<open>
  Stand-ins for the collaborators, a file system with one mel of one frame and pitch
  files of the shapes \<open>(1)\<close>, \<open>(1, 1, 1)\<close> and \<open>(2)\<close>, and datasets over them: mels and
  pitch from disk and the exact prior (\<open>dataset0\<close>), mels from waveforms
  (\<open>dataset_wav\<close>), the interpolated prior with a cache directory configured
  (\<open>dataset_interp\<close>), the prior cached on disk without and with a dataset root
  (\<open>dataset_cached\<close>, \<open>dataset_rooted\<close>).
\<close>

definition env0 :: env where
  "env0 = \<lparr>load_wav_to_torch = (\<lambda>p. if p = ''wavs/a.wav'' then Some ([1, 2], 22050) else None),
            mel_spectrogram = (\<lambda>a. Some \<lparr>shape = [2, length a], flat = a @ a\<rparr>),
            mel_spectrogram_ds = (\<lambda>a. None),
            encode_text = (\<lambda>s. Some (map (\<lambda>c. int (of_char c)) s, [length s])),
            estimate_pitch = (\<lambda>w n. Some \<lparr>shape = [n], flat = replicate n 0\<rparr>),
            upsample_word_label = (\<lambda>c t. None),
            zoom = (\<lambda>t z. Some \<lparr>shape = [1, 1], flat = [1]\<rparr>),
            parse_int = (\<lambda>s. None)\<rparr>"

definition fs0 :: filesystem where
  "fs0 = \<lparr>files = [[''mels'', ''a.pt''] \<mapsto> \<lparr>shape = [2, 1], flat = [3, 4]\<rparr>,
                   [''pitch'', ''a.pt''] \<mapsto> \<lparr>shape = [1], flat = [7]\<rparr>,
                   [''pitch'', ''b.pt''] \<mapsto> \<lparr>shape = [1, 1, 1], flat = [7]\<rparr>,
                   [''pitch'', ''c.pt''] \<mapsto> \<lparr>shape = [2], flat = [7, 8]\<rparr>],
           dirs = {[''mels''], [''pitch'']}\<rparr>"

definition dataset0 :: dataset where
  "dataset0 = \<lparr>dataset_path = [],
       audiopaths_and_text =
         [[(''mels'', ''mels/a.pt''), (''text'', ''a''), (''pitch'', ''pitch/a.pt'')],
          [(''mels'', ''mels/a.pt''), (''text'', ''b''), (''pitch'', ''pitch/b.pt'')],
          [(''mels'', ''mels/a.pt''), (''text'', ''c''), (''pitch'', ''pitch/c.pt'')]],
       n_speakers = 1,
       load_mel_from_disk = True,
       max_wav_value = None,
       stft_sampling_rate = 22050,
       mels_downsampled = False,
       load_ds_mel_from_disk = False,
       load_pitch_from_disk = True,
       cwt_accent = False,
       load_cwt_from_disk = False,
       prepend_space_to_text = False,
       append_space_to_text = False,
       pitch_tmp_dir = None,
       betabinomial_tmp_dir = None,
       use_betabinomial_interpolator = False,
       betabinomial_interpolator = \<lparr>round_mel_len_to = 1, round_text_len_to = 1\<rparr>\<rparr>"

definition dataset_wav :: dataset where
  "dataset_wav = dataset0\<lparr>load_mel_from_disk := False, max_wav_value := Some 2\<rparr>"

definition dataset_interp :: dataset where
  "dataset_interp = dataset0\<lparr>use_betabinomial_interpolator := True,
                               betabinomial_tmp_dir := Some ''cache''\<rparr>"

definition dataset_cached :: dataset where
  "dataset_cached = dataset0\<lparr>betabinomial_tmp_dir := Some ''cache'',
       audiopaths_and_text :=
         [[(''mels'', ''wavs/a.wav''), (''text'', ''a'')],
          [(''mels'', ''wavs/b.wav''), (''text'', ''b'')]]\<rparr>"

definition dataset_rooted :: dataset where
  "dataset_rooted = dataset0\<lparr>betabinomial_tmp_dir := Some ''cache'',
       dataset_path := ''data'',
       audiopaths_and_text :=
         [[(''mels'', ''data/wavs/a.wav''), (''text'', ''a'')],
          [(''mels'', ''data/wavs/b.wav''), (''text'', ''b'')]]\<rparr>"

section \<open>Properties\<close>

subsection \<open>Bucket rounding\<close>







subsection \<open>Collation: auxiliary facts\<close>

lemma bindE_Inl [simp]: "bindE (Inl e) f = Inl e"
  by (simp add: bindE_def)

lemma bindE_Inr [simp]: "bindE (Inr x) f = f x"
  by (simp add: bindE_def)

lemma bindE_eq_Inr: "bindE m f = Inr y \<longleftrightarrow> (\<exists>x. m = Inr x \<and> f x = Inr y)"
  by (cases m) simp_all

lemma mapM_eq_Inr:
  "mapM f xs = Inr ys \<longleftrightarrow> list_all2 (\<lambda>x y. f x = Inr y) xs ys"
proof (induction xs arbitrary: ys)
  case Nil
  then show ?case by auto
next
  case (Cons x xs)
  show ?case
    by (cases ys) (auto simp: bindE_eq_Inr Cons.IH list_all2_Cons1)
qed

lemma mapM_total:
  assumes "\<And>x. x \<in> set xs \<Longrightarrow> f x = Inr (g x)"
  shows "mapM f xs = Inr (map g xs)"
  using assms by (induction xs) simp_all

lemma ids_mset: "mset (ids_sorted_decreasing batch) = mset [0..<length batch]"
  by (simp add: ids_sorted_decreasing_def)

lemma ids_set: "set (ids_sorted_decreasing batch) = {0..<length batch}"
  by (simp add: ids_sorted_decreasing_def)

lemma ids_length: "length (ids_sorted_decreasing batch) = length batch"
  by (simp add: ids_sorted_decreasing_def)

lemma sorted_neg_rev: "sorted (map (\<lambda>i. - int (g i)) xs) \<Longrightarrow> sorted (rev (map g xs))"
  by (induction xs) (auto simp: sorted_append)

lemma ids_sorted:
  "sorted (rev (map (\<lambda>i. length (text_ids (batch ! i))) (ids_sorted_decreasing batch)))"
proof -
  have "sorted (map (\<lambda>i. - int (length (text_ids (batch ! i)))) (ids_sorted_decreasing batch))"
    unfolding ids_sorted_decreasing_def by (rule sorted_sort_key)
  then show ?thesis by (rule sorted_neg_rev)
qed

lemma sorted_rev_hd_Max:
  assumes "sorted (rev xs)" "xs \<noteq> []"
  shows "hd xs = Max (set xs)"
proof -
  obtain x rest where xs: "xs = x # rest" using assms(2) by (cases xs) auto
  have "\<forall>y\<in>set rest. y \<le> x" using assms(1) by (auto simp: xs sorted_append)
  then have "Max (set xs) = x" by (intro Max_eqI) (auto simp: xs)
  then show ?thesis by (simp add: xs)
qed

lemma map_nth_fun: "map (\<lambda>i. f (xs ! i)) [0..<length xs] = map f xs"
  by (rule nth_equalityI) simp_all

lemma input_lengths_mset:
  "mset (map (\<lambda>i. length (text_ids (batch ! i))) (ids_sorted_decreasing batch))
     = mset (map (\<lambda>x. length (text_ids x)) batch)"
proof -
  have "mset (map (\<lambda>i. length (text_ids (batch ! i))) (ids_sorted_decreasing batch))
      = mset (map (\<lambda>i. length (text_ids (batch ! i))) [0..<length batch])"
    using ids_mset [of batch] by (metis mset_map)
  then show ?thesis
    using map_nth_fun [of "\<lambda>x. length (text_ids x)" batch] by simp
qed

lemma input_lengths_set:
  "set (map (\<lambda>i. length (text_ids (batch ! i))) (ids_sorted_decreasing batch))
     = set (map (\<lambda>x. length (text_ids x)) batch)"
  using input_lengths_mset [of batch] by (rule mset_eq_setD)

lemma setitem1_pad:
  assumes "length src \<le> L"
  shows "setitem1 (replicate L z) (length src) src = Inr (src @ replicate (L - length src) z)"
  using assms by (simp add: setitem1_def expand1_def min_def)

lemma collate_text_eq:
  assumes "batch \<noteq> []"
  shows "collate_text batch =
     Inr (map (\<lambda>i. text_ids (batch ! i)
                  @ replicate (max_text_len batch - length (text_ids (batch ! i))) 0)
            (ids_sorted_decreasing batch),
          map (\<lambda>i. length (text_ids (batch ! i))) (ids_sorted_decreasing batch),
          ids_sorted_decreasing batch)"
proof -
  define ids where "ids = ids_sorted_decreasing batch"
  define il where "il = map (\<lambda>i. length (text_ids (batch ! i))) ids"
  have ne: "il \<noteq> []"
    using assms ids_length [of batch] by (auto simp: il_def ids_def)
  then obtain L rest where il: "il = L # rest" by (cases il) auto
  have "hd il = Max (set il)"
    using ids_sorted [of batch] ne unfolding il_def ids_def by (rule sorted_rev_hd_Max)
  moreover have "set il = set (map (\<lambda>x. length (text_ids x)) batch)"
    unfolding il_def ids_def by (rule input_lengths_set)
  ultimately have "hd il = max_text_len batch"
    by (simp only: max_text_len_def)
  then have L: "L = max_text_len batch"
    using il by simp
  have le: "length (text_ids (batch ! i)) \<le> L" if "i \<in> set ids" for i
  proof -
    have "length (text_ids (batch ! i)) \<in> set il" using that by (simp add: il_def)
    then have "length (text_ids (batch ! i)) \<le> Max (set il)" by simp
    with \<open>hd il = Max (set il)\<close> il show ?thesis by simp
  qed
  have "mapM (\<lambda>i. setitem1 (replicate L 0) (length (text_ids (batch ! i))) (text_ids (batch ! i))) ids
      = Inr (map (\<lambda>i. text_ids (batch ! i) @ replicate (L - length (text_ids (batch ! i))) 0) ids)"
    by (rule mapM_total) (simp add: setitem1_pad le)
  then show ?thesis
    using il unfolding collate_text_def Let_def ids_def [symmetric] il_def [symmetric]
    by (simp add: L)
qed

lemma bindE_InrE:
  assumes "bindE m f = Inr y"
  obtains x where "m = Inr x" "f x = Inr y"
  using assms by (auto simp: bindE_eq_Inr)

lemma collate_Inr_fields:
  assumes "collate batch = Inr b"
  shows "\<exists>tp il ids mtl. collate_text batch = Inr (tp, il, ids)
           \<and> collate_mel batch ids = Inr (mel_padded b, output_lengths b, mtl)
           \<and> text_padded b = tp \<and> input_lengths b = il
           \<and> len_x b = map (\<lambda>x. real (len_text x)) batch
           \<and> audiopaths b = map (\<lambda>i. audiopath (batch ! i)) ids"
  using assms unfolding collate_def Let_def
  apply -
  apply ((erule bindE_InrE, clarsimp?)+)
  apply (clarsimp split: option.splits)
  done

lemma collate_ds_mel_absent:
  assumes "ds_mel (batch ! 0) = None"
  shows "collate batch \<noteq> Inr b"
proof
  assume "collate batch = Inr b"
  then show False
    unfolding collate_def Let_def
    apply -
    apply ((erule bindE_InrE, clarsimp?)+)
    apply (clarsimp simp: collate_ds_mel_def assms split: option.splits)
    done
qed

lemma py_max_ge: "x \<in> set xs \<Longrightarrow> x \<le> py_max xs"
  unfolding py_max_def by (induction xs) auto

lemma setitem2_pad:
  assumes "wf_tensor2 src" "size0 src = R" "size1 src \<le> C"
  shows "setitem2 (zeros2 R C) R (size1 src) src
     = Inr \<lparr>size0 = R, size1 = C,
            rows = map (\<lambda>r. r @ replicate (C - size1 src) 0) (rows src)\<rparr>"
proof -
  have len: "length (rows src) = R" using assms by (simp add: wf_tensor2_def)
  have e: "expand2 R (size1 src) src = Inr (rows src)"
    using assms by (simp add: expand2_def)
  have "map2 (\<lambda>vr dr. vr @ drop (size1 src) dr) (rows src) (replicate R (replicate C (0::real)))
      = map (\<lambda>r. r @ replicate (C - size1 src) 0) (rows src)"
    using len by (intro nth_equalityI) simp_all
  then show ?thesis
    using assms(3) len by (simp add: setitem2_def zeros2_def e min_def)
qed

lemma slice_cols_pad:
  assumes "wf_tensor2 src" "size1 src \<le> C"
  shows "slice_cols \<lparr>size0 = size0 src, size1 = C,
            rows = map (\<lambda>r. r @ replicate (C - size1 src) 0) (rows src)\<rparr> (size1 src) = src"
proof -
  have "map (take (size1 src) \<circ> (\<lambda>r. r @ replicate (C - size1 src) 0)) (rows src) = rows src"
    using assms(1) by (intro map_idI) (simp add: wf_tensor2_def list_all_iff)
  then show ?thesis
    using assms(2) by (simp add: slice_cols_def min_def)
qed

subsection \<open>Collation: text padding and sorted lengths\<close>

text \<open>
  C5.  For every non-empty batch of \<open>N\<close> examples the text stage of collate returns: the
  text tensor has \<open>N\<close> rows of length \<open>L_max\<close>, the largest text length of the batch;
  row \<open>i\<close> is zero from column \<open>input_lengths[i]\<close> on; \<open>input_lengths\<close> is the list of
  the examples' text lengths in sorted order, a permutation of the batch's text lengths in
  descending order; and whenever collate returns a batch, these are its text tensor and
  its input lengths.
\<close>

theorem collate_text_shape:
  assumes "batch \<noteq> []"
  shows "\<exists>tp il ids. collate_text batch = Inr (tp, il, ids)
     \<and> ids = ids_sorted_decreasing batch
     \<and> length tp = length batch
     \<and> list_all (\<lambda>row. length row = max_text_len batch) tp
     \<and> (\<forall>i j. i < length batch \<and> il ! i \<le> j \<and> j < max_text_len batch \<longrightarrow> tp ! i ! j = 0)
     \<and> il = map (\<lambda>i. length (text_ids (batch ! i))) ids
     \<and> mset ids = mset [0..<length batch]
     \<and> mset il = mset (map (\<lambda>x. length (text_ids x)) batch)
     \<and> sorted (rev il)
     \<and> (\<forall>b. collate batch = Inr b \<longrightarrow> text_padded b = tp \<and> input_lengths b = il)"
proof -
  define ids where "ids = ids_sorted_decreasing batch"
  define il where "il = map (\<lambda>i. length (text_ids (batch ! i))) ids"
  define tp where "tp = map (\<lambda>i. text_ids (batch ! i)
                  @ replicate (max_text_len batch - length (text_ids (batch ! i))) 0) ids"
  have ct: "collate_text batch = Inr (tp, il, ids)"
    unfolding tp_def il_def ids_def by (rule collate_text_eq [OF assms])
  have len: "length ids = length batch" by (simp add: ids_def ids_length)
  have le: "length (text_ids (batch ! i)) \<le> max_text_len batch" if "i \<in> set ids" for i
  proof -
    have "i < length batch" using that by (simp add: ids_def ids_set)
    then have "length (text_ids (batch ! i)) \<in> set (map (\<lambda>x. length (text_ids x)) batch)"
      using nth_mem [of i batch] by simp
    then show ?thesis unfolding max_text_len_def by (intro Max_ge) simp_all
  qed
  have shape: "list_all (\<lambda>row. length row = max_text_len batch) tp"
    by (simp add: tp_def list_all_iff le)
  have zero: "tp ! i ! j = 0"
    if "i < length batch" "il ! i \<le> j" "j < max_text_len batch" for i j
    using that len by (simp add: tp_def il_def nth_append)
  have ret: "text_padded b = tp \<and> input_lengths b = il" if "collate batch = Inr b" for b
    using collate_Inr_fields [OF that] ct by auto
  have perm: "mset ids = mset [0..<length batch]"
    unfolding ids_def by (rule ids_mset)
  have ms: "mset il = mset (map (\<lambda>x. length (text_ids x)) batch)"
    unfolding il_def ids_def by (rule input_lengths_mset)
  have srt: "sorted (rev il)"
    unfolding il_def ids_def by (rule ids_sorted)
  have zero': "\<forall>i j. i < length batch \<and> il ! i \<le> j \<and> j < max_text_len batch \<longrightarrow> tp ! i ! j = 0"
    using zero by blast
  have ret': "\<forall>b. collate batch = Inr b \<longrightarrow> text_padded b = tp \<and> input_lengths b = il"
    using ret by blast
  have ltp: "length tp = length batch" by (simp add: tp_def len)
  show ?thesis
    by (intro exI [of _ tp] exI [of _ il] exI [of _ ids] conjI)
      (fact ct ids_def ltp shape zero' il_def perm ms srt ret')+
qed


theorem collate_text_shape_witness:
  "[ex_a, ex_b, ex_c] \<noteq> []
   \<and> collate_text [ex_a, ex_b, ex_c]
       = Inr ([[31, 32, 33, 34, 35, 36, 37, 38], [11, 12, 13, 14, 15, 0, 0, 0],
               [21, 22, 23, 0, 0, 0, 0, 0]], [8, 5, 3], [2, 0, 1])
   \<and> map_sum id (\<lambda>b. (text_padded b, input_lengths b)) (collate [ex_a, ex_b, ex_c])
       = Inr ([[31, 32, 33, 34, 35, 36, 37, 38], [11, 12, 13, 14, 15, 0, 0, 0],
               [21, 22, 23, 0, 0, 0, 0, 0]], [8, 5, 3])"
proof -
  define B where "B = [ex_a, ex_b, ex_c]"
  have ne: "B \<noteq> []" by (simp add: B_def)
  have ev: "collate_text B
       = Inr ([[31, 32, 33, 34, 35, 36, 37, 38], [11, 12, 13, 14, 15, 0, 0, 0],
               [21, 22, 23, 0, 0, 0, 0, 0]], [8, 5, 3], [2, 0, 1])"
    unfolding B_def by code_simp
  have "isl (collate B) = False" unfolding B_def by code_simp
  then obtain b where b: "collate B = Inr b"
    by (cases "collate B") simp_all
  from collate_text_shape [OF ne] obtain tp il ids where
    ct: "collate_text B = Inr (tp, il, ids)" and
    ret: "\<forall>b. collate B = Inr b \<longrightarrow> text_padded b = tp \<and> input_lengths b = il"
    by blast
  from ct ev have "tp = [[31, 32, 33, 34, 35, 36, 37, 38], [11, 12, 13, 14, 15, 0, 0, 0],
               [21, 22, 23, 0, 0, 0, 0, 0]]" and "il = [8, 5, 3]"
    by simp_all
  with ret b have "text_padded b = [[31, 32, 33, 34, 35, 36, 37, 38], [11, 12, 13, 14, 15, 0, 0, 0],
               [21, 22, 23, 0, 0, 0, 0, 0]]" and "input_lengths b = [8, 5, 3]"
    by simp_all
  with b have "map_sum id (\<lambda>b. (text_padded b, input_lengths b)) (collate B)
       = Inr ([[31, 32, 33, 34, 35, 36, 37, 38], [11, 12, 13, 14, 15, 0, 0, 0],
               [21, 22, 23, 0, 0, 0, 0, 0]], [8, 5, 3])"
    by simp
  with ne ev show ?thesis unfolding B_def by blast
qed

subsection \<open>Collation: padding and slicing back\<close>

text \<open>
  C6.  The claim fails for the mel of an example with one channel in a batch whose first
  example has more: the assignment broadcasts the single row over all channels, and the
  slice read back has two rows where the example's mel has one.
\<close>

theorem collate_roundtrip_counterexample:
  "map_sum id (\<lambda>b. (input_lengths b, output_lengths b,
                    slice_cols (mel_padded b ! 1) (output_lengths b ! 1)))
      (collate [ex_a, ex_mono])
     = Inr ([5, 3], [2, 3], \<lparr>size0 = 2, size1 = 3, rows = [[1, 2, 3], [1, 2, 3]]\<rparr>)
   \<and> ids_sorted_decreasing [ex_a, ex_mono] = [0, 1]
   \<and> mel ex_mono = \<lparr>size0 = 1, size1 = 3, rows = [[1, 2, 3]]\<rparr>"
  by code_simp

text \<open>
  C6 (amended).  Whenever collate returns a batch, for every position \<open>i\<close> in sorted order
  the row \<open>text_padded[i, :input_lengths[i]]\<close> is the token sequence of the \<open>i\<close>-th sorted
  example, \<open>output_lengths[i]\<close> is its mel's frame count, and
  \<open>mel_padded[i, :, :output_lengths[i]]\<close> is its mel-spectrogram provided the mel is a
  well-formed tensor with as many channels as the mel of the first example of the batch.
\<close>

theorem collate_roundtrip:
  assumes "collate batch = Inr b" "i < length batch"
  shows "take (input_lengths b ! i) (text_padded b ! i)
           = text_ids (batch ! (ids_sorted_decreasing batch ! i))
       \<and> output_lengths b ! i = size1 (mel (batch ! (ids_sorted_decreasing batch ! i)))
       \<and> (wf_tensor2 (mel (batch ! (ids_sorted_decreasing batch ! i)))
            \<and> size0 (mel (batch ! (ids_sorted_decreasing batch ! i))) = size0 (mel (batch ! 0))
          \<longrightarrow> slice_cols (mel_padded b ! i) (output_lengths b ! i)
                = mel (batch ! (ids_sorted_decreasing batch ! i)))"
proof -
  define ids where "ids = ids_sorted_decreasing batch"
  define k where "k = ids ! i"
  have ne: "batch \<noteq> []" using assms(2) by auto
  have len: "length ids = length batch" by (simp add: ids_def ids_length)
  have k: "k < length batch"
    using assms(2) len ids_set [of batch] nth_mem [of i ids] by (simp add: k_def ids_def)
  from collate_Inr_fields [OF assms(1)] collate_text_eq [OF ne]
  obtain mtl where
    tp: "text_padded b = map (\<lambda>i. text_ids (batch ! i)
             @ replicate (max_text_len batch - length (text_ids (batch ! i))) 0) ids" and
    il: "input_lengths b = map (\<lambda>i. length (text_ids (batch ! i))) ids" and
    cm: "collate_mel batch ids = Inr (mel_padded b, output_lengths b, mtl)"
    by (auto simp: ids_def)
  have tx: "take (input_lengths b ! i) (text_padded b ! i) = text_ids (batch ! k)"
    using assms(2) len by (simp add: tp il k_def)
  define R where "R = size0 (mel (batch ! 0))"
  define C where "C = py_max (map (\<lambda>x. size1 (mel x)) batch)"
  from cm have
    mp: "mapM (\<lambda>i. setitem2 (zeros2 R C) R (size1 (mel (batch ! i))) (mel (batch ! i))) ids
           = Inr (mel_padded b)" and
    ol: "output_lengths b = map (\<lambda>i. size1 (mel (batch ! i))) ids"
    unfolding collate_mel_def Let_def R_def [symmetric] C_def [symmetric]
    by (auto elim!: bindE_InrE)
  have oli: "output_lengths b ! i = size1 (mel (batch ! k))"
    using assms(2) len by (simp add: ol k_def)
  have row: "setitem2 (zeros2 R C) R (size1 (mel (batch ! k))) (mel (batch ! k))
               = Inr (mel_padded b ! i)"
    using mp assms(2) len unfolding mapM_eq_Inr k_def by (simp add: list_all2_conv_all_nth)
  have leC: "size1 (mel (batch ! k)) \<le> C"
    unfolding C_def using k by (intro py_max_ge) simp
  have mel: "slice_cols (mel_padded b ! i) (output_lengths b ! i) = mel (batch ! k)"
    if wf: "wf_tensor2 (mel (batch ! k))" and ch: "size0 (mel (batch ! k)) = R"
  proof -
    have "mel_padded b ! i = \<lparr>size0 = size0 (mel (batch ! k)), size1 = C,
            rows = map (\<lambda>r. r @ replicate (C - size1 (mel (batch ! k))) 0) (rows (mel (batch ! k)))\<rparr>"
      using row setitem2_pad [OF wf ch leC] by (simp add: ch)
    then show ?thesis using slice_cols_pad [OF wf leC] by (simp add: oli)
  qed
  show ?thesis using tx oli mel by (simp add: k_def ids_def R_def)
qed

theorem collate_roundtrip_witness:
  "map_sum id (\<lambda>b. (take (input_lengths b ! 1) (text_padded b ! 1),
                    slice_cols (mel_padded b ! 1) (output_lengths b ! 1)))
      (collate [ex_a, ex_b, ex_c])
     = Inr (text_ids ex_a, mel ex_a)
   \<and> ids_sorted_decreasing [ex_a, ex_b, ex_c] ! 1 = 0"
proof -
  define B where "B = [ex_a, ex_b, ex_c]"
  have "isl (collate B) = False" unfolding B_def by code_simp
  then obtain b where b: "collate B = Inr b"
    by (cases "collate B") simp_all
  have i: "1 < length B" by (simp add: B_def)
  have ids: "ids_sorted_decreasing B ! 1 = 0" unfolding B_def by code_simp
  have k: "B ! 0 = ex_a" by (simp add: B_def)
  have wf: "wf_tensor2 (mel ex_a)" by code_simp
  note r = collate_roundtrip [OF b i, unfolded ids k]
  from r wf
  have "take (input_lengths b ! 1) (text_padded b ! 1) = text_ids ex_a"
    and "slice_cols (mel_padded b ! 1) (output_lengths b ! 1) = mel ex_a"
    by blast+
  then have "map_sum id (\<lambda>b. (take (input_lengths b ! 1) (text_padded b ! 1),
                    slice_cols (mel_padded b ! 1) (output_lengths b ! 1))) (collate B)
     = Inr (text_ids ex_a, mel ex_a)"
    by (simp add: b)
  with ids show ?thesis unfolding B_def by blast
qed

subsection \<open>Collation: order of the token counts and of the audio paths\<close>

text \<open>
  C8.  In the batch returned by collate, \<open>len_x\<close> lists the examples' token counts in
  the order of the input batch, while the audio paths are listed in the sorted order, the
  order of \<open>input_lengths\<close>: the permutation \<open>ids_sorted_decreasing\<close> of the batch's
  indices that sorts the text lengths in descending order.
\<close>

theorem collate_len_x_order:
  assumes "collate batch = Inr b"
  shows "len_x b = map (\<lambda>x. real (len_text x)) batch
       \<and> audiopaths b = map (\<lambda>i. audiopath (batch ! i)) (ids_sorted_decreasing batch)
       \<and> input_lengths b = map (\<lambda>i. length (text_ids (batch ! i))) (ids_sorted_decreasing batch)
       \<and> mset (ids_sorted_decreasing batch) = mset [0..<length batch]
       \<and> sorted (rev (input_lengths b))"
proof -
  have ne: "batch \<noteq> []"
  proof
    assume "batch = []"
    then have "collate batch = Inl IndexError"
      by (simp add: collate_def collate_text_def ids_sorted_decreasing_def)
    with assms show False by simp
  qed
  from collate_Inr_fields [OF assms] collate_text_eq [OF ne]
  have "len_x b = map (\<lambda>x. real (len_text x)) batch"
    and "audiopaths b = map (\<lambda>i. audiopath (batch ! i)) (ids_sorted_decreasing batch)"
    and il: "input_lengths b = map (\<lambda>i. length (text_ids (batch ! i))) (ids_sorted_decreasing batch)"
    by auto
  then show ?thesis using ids_mset [of batch] ids_sorted [of batch] by simp
qed


theorem collate_len_x_order_witness:
  "map_sum id (\<lambda>b. (len_x b, audiopaths b, input_lengths b)) (collate [ex_a, ex_b, ex_c])
     = Inr ([5, 3, 8], [''wavs/c.wav'', ''wavs/a.wav'', ''wavs/b.wav''], [8, 5, 3])
   \<and> map audiopath [ex_a, ex_b, ex_c] = [''wavs/a.wav'', ''wavs/b.wav'', ''wavs/c.wav'']"
proof -
  define B where "B = [ex_a, ex_b, ex_c]"
  have "isl (collate B) = False" unfolding B_def by code_simp
  then obtain b where b: "collate B = Inr b"
    by (cases "collate B") simp_all
  have e1: "map (\<lambda>x. real (len_text x)) B = [5, 3, 8]"
    unfolding B_def by code_simp
  have e2: "map (\<lambda>i. audiopath (B ! i)) (ids_sorted_decreasing B)
      = [''wavs/c.wav'', ''wavs/a.wav'', ''wavs/b.wav'']"
    unfolding B_def by code_simp
  have e3: "map (\<lambda>i. length (text_ids (B ! i))) (ids_sorted_decreasing B) = [8, 5, 3]"
    unfolding B_def by code_simp
  have e4: "map audiopath [ex_a, ex_b, ex_c] = [''wavs/a.wav'', ''wavs/b.wav'', ''wavs/c.wav'']"
    by code_simp
  from collate_len_x_order [OF b]
  have "len_x b = [5, 3, 8]"
    and "audiopaths b = [''wavs/c.wav'', ''wavs/a.wav'', ''wavs/b.wav'']"
    and "input_lengths b = [8, 5, 3]"
    by (simp_all only: e1 e2 e3)
  then have "map_sum id (\<lambda>b. (len_x b, audiopaths b, input_lengths b)) (collate B)
     = Inr ([5, 3, 8], [''wavs/c.wav'', ''wavs/a.wav'', ''wavs/b.wav''], [8, 5, 3])"
    by (simp add: b)
  with e4 show ?thesis unfolding B_def by blast
qed

subsection \<open>Collation without downsampled mels\<close>

text \<open>
  C1.  On a batch of the default configuration (no example has a downsampled mel) the
  collate function does not return a batch: the \<^verbatim>\<open>else\<close> branch binds
  \<^verbatim>\<open>ds_mel_padded\<close> only, and the \<^verbatim>\<open>return\<close> statement reads the unbound
  \<^verbatim>\<open>output_lengths_ds\<close>.
\<close>

theorem collate_default_raises: "collate [ex_default] = Inl UnboundLocalError"
  by code_simp

subsection \<open>The exact beta-binomial matrix\<close>

lemma fact_pochhammer_shift:
  assumes "1 \<le> a"
  shows "(fact (a + k - 1) :: real) = fact (a - 1) * pochhammer (real a) k"
proof -
  have "(fact (a - 1 + k) :: real) = pochhammer 1 (a - 1 + k)"
    by (simp add: pochhammer_fact)
  also have "\<dots> = pochhammer 1 (a - 1) * pochhammer (1 + real (a - 1)) k"
    by (rule pochhammer_product')
  also have "1 + real (a - 1) = real a" using assms by simp
  finally show ?thesis using assms by (simp add: pochhammer_fact)
qed

lemma betabinom_pmf_pochhammer:
  assumes "1 \<le> a" "1 \<le> b" "k \<le> n"
  shows "betabinom_pmf n a b k
     = real (n choose k) * pochhammer (real a) k * pochhammer (real b) (n - k)
         / pochhammer (real a + real b) n"
proof -
  define A :: real where "A = fact (a - 1)"
  define B :: real where "B = fact (b - 1)"
  define S :: real where "S = fact (a + b - 1)"
  define pa where "pa = pochhammer (real a) k"
  define pb where "pb = pochhammer (real b) (n - k)"
  define ps where "ps = pochhammer (real a + real b) n"
  have 1: "(fact (k + a - 1) :: real) = A * pa"
    using fact_pochhammer_shift [OF assms(1), of k] by (simp add: add.commute A_def pa_def)
  have 2: "(fact (n - k + b - 1) :: real) = B * pb"
    using fact_pochhammer_shift [OF assms(2), of "n - k"] by (simp add: add.commute B_def pb_def)
  have "k + a + (n - k + b) - 1 = (a + b) + n - 1" using assms by simp
  moreover have "(fact ((a + b) + n - 1) :: real) = fact (a + b - 1) * pochhammer (real (a + b)) n"
    using assms by (intro fact_pochhammer_shift) simp
  ultimately have 3: "(fact (k + a + (n - k + b) - 1) :: real) = S * ps"
    by (simp add: S_def ps_def)
  have nz: "ps \<noteq> 0" "A \<noteq> 0" "B \<noteq> 0" "S \<noteq> 0"
    using assms by (simp_all add: ps_def A_def B_def S_def pochhammer_eq_0_iff)
  have e1: "beta_fn (k + a) (n - k + b) = (A * pa) * (B * pb) / (S * ps)"
    unfolding beta_fn_def 1 2 3 ..
  have e2: "beta_fn a b = A * B / S"
    by (simp add: beta_fn_def A_def B_def S_def)
  have r: "beta_fn (k + a) (n - k + b) / beta_fn a b = pa * pb / ps"
    unfolding e1 e2 using nz by (simp add: field_simps)
  have "real (n choose k) * beta_fn (k + a) (n - k + b) / beta_fn a b
      = real (n choose k) * (beta_fn (k + a) (n - k + b) / beta_fn a b)"
    by simp
  also have "\<dots> = real (n choose k) * pa * pb / ps"
    unfolding r by simp
  finally have "real (n choose k) * beta_fn (k + a) (n - k + b) / beta_fn a b
      = real (n choose k) * pa * pb / ps" .
  then show ?thesis
    using assms(3) by (simp add: betabinom_pmf_def pa_def pb_def ps_def)
qed

lemma betabinom_pmf_total:
  assumes "1 \<le> a" "1 \<le> b"
  shows "(\<Sum>k\<le>n. betabinom_pmf n a b k) = 1"
proof -
  have nz: "pochhammer (real a + real b) n \<noteq> 0"
    using assms by (simp add: pochhammer_eq_0_iff)
  have "(\<Sum>k\<le>n. betabinom_pmf n a b k)
      = (\<Sum>k\<le>n. real (n choose k) * pochhammer (real a) k * pochhammer (real b) (n - k)
         / pochhammer (real a + real b) n)"
    by (intro sum.cong refl betabinom_pmf_pochhammer assms) simp
  also have "\<dots> = (\<Sum>k\<le>n. real (n choose k) * pochhammer (real a) k * pochhammer (real b) (n - k))
         / pochhammer (real a + real b) n"
    by (simp add: sum_divide_distrib)
  also have "\<dots> = 1"
    using nz pochhammer_binomial_sum [of "real a" "real b" n] by simp
  finally show ?thesis .
qed

lemma betabinom_pmf_pos:
  assumes "1 \<le> a" "1 \<le> b" "k \<le> n"
  shows "0 < betabinom_pmf n a b k"
  using assms by (simp add: betabinom_pmf_def beta_fn_def)


lemma betabinom_row_sum:
  assumes "1 \<le> a" "1 \<le> b"
  shows "sum_list (map (\<lambda>k. betabinom_pmf n a b k) [0..<n]) = 1 - betabinom_pmf n a b n"
proof -
  have "sum_list (map (\<lambda>k. betabinom_pmf n a b k) [0..<n]) = (\<Sum>k<n. betabinom_pmf n a b k)"
    by (simp add: interv_sum_list_conv_sum_set_nat atLeast0LessThan)
  moreover have "(\<Sum>k\<le>n. betabinom_pmf n a b k) = (\<Sum>k<n. betabinom_pmf n a b k) + betabinom_pmf n a b n"
    by (simp add: lessThan_Suc_atMost [symmetric])
  ultimately show ?thesis using betabinom_pmf_total [OF assms, of n] by simp
qed

text \<open>
  C3.  The rows do not sum to 1: row \<open>i\<close> holds the probabilities of the positions
  \<open>0, \<dots>, P - 1\<close> of a distribution on \<open>0, \<dots>, P\<close> (\<^verbatim>\<open>betabinom(P, a, b)\<close> has \<open>P\<close>
  trials), so the mass of position \<open>P\<close> is missing.  For \<open>P = M = 1\<close> the matrix is
  \<open>[[1/2]]\<close>.
\<close>

theorem beta_binomial_row_sum_counterexample:
  "beta_binomial_prior_distribution 1 1 = Tensor2 \<lparr>size0 = 1, size1 = 1, rows = [[1 / 2]]\<rparr>
   \<and> sum_list [1 / 2 :: real] \<noteq> 1"
  by code_simp

text \<open>
  C3 (amended).  For all text lengths \<open>P \<ge> 1\<close> and mel lengths \<open>M \<ge> 1\<close> the exact
  computation returns a matrix of shape \<open>(M, P)\<close> whose row for mel frame \<open>i\<close>
  (\<open>1 \<le> i \<le> M\<close>, at index \<open>i - 1\<close>) holds the beta-binomial probabilities with \<open>P\<close>
  trials and parameters \<open>a = i\<close>, \<open>b = M + 1 - i\<close> at the positions \<open>0, \<dots>, P - 1\<close>;
  the row sums to 1 minus the probability of position \<open>P\<close>, which is less than 1.
\<close>

theorem beta_binomial_rows:
  assumes "1 \<le> P" "1 \<le> M"
  shows "\<exists>t. beta_binomial_prior_distribution P M = Tensor2 t
     \<and> size0 t = nat M \<and> size1 t = nat P \<and> wf_tensor2 t
     \<and> (\<forall>i k. i < nat M \<and> k < nat P \<longrightarrow>
           rows t ! i ! k = betabinom_pmf (nat P) (i + 1) (nat M - i) k)
     \<and> (\<forall>i. i < nat M \<longrightarrow>
           sum_list (rows t ! i) = 1 - betabinom_pmf (nat P) (i + 1) (nat M - i) (nat P)
           \<and> sum_list (rows t ! i) < 1)"
proof -
  define n where "n = nat P"
  define m where "m = nat M"
  define row where "row i = map (\<lambda>k. betabinom_pmf n (i + 1) (m - i) k) [0..<n]" for i
  define t where "t = \<lparr>size0 = m, size1 = n, rows = map row [0..<m]\<rparr>"
  have m: "1 \<le> m" and n: "1 \<le> n" using assms by (simp_all add: m_def n_def)
  have idx: "[1..<nat (M + 1)] = map Suc [0..<m]"
    using assms by (simp add: m_def nat_add_distrib map_Suc_upt)
  have b: "nat (M + 1 - int (Suc i)) = m - i" for i
    using assms by (simp add: m_def)
  have b': "nat (M - int i) = m - i" for i
    using assms by (simp add: m_def)
  have rs: "map (\<lambda>i. map (betabinom_pmf (nat P) i (nat (M + 1 - int i))) [0..<nat P])
               [1..<nat (M + 1)]
      = map row [0..<m]"
    unfolding idx by (simp add: row_def b b' n_def comp_def)
  have arr: "beta_binomial_prior_distribution P M = np_array (map row [0..<m])"
    unfolding beta_binomial_prior_distribution_def Let_def rs ..
  have ne: "map row [0..<m] = row 0 # map row [1..<m]"
    using m by (simp add: upt_conv_Cons)
  have "np_array (map row [0..<m])
      = Tensor2 \<lparr>size0 = length (map row [0..<m]), size1 = length (row 0),
                 rows = map row [0..<m]\<rparr>"
    unfolding np_array_def by (subst (1) ne) simp
  then have eq: "beta_binomial_prior_distribution P M = Tensor2 t"
    unfolding arr by (simp add: t_def row_def)
  have wf: "wf_tensor2 t"
    by (simp add: wf_tensor2_def t_def list_all_iff row_def)
  have ent: "rows t ! i ! k = betabinom_pmf n (i + 1) (m - i) k" if "i < m" "k < n" for i k
    using that by (simp add: t_def row_def)
  have sm: "sum_list (rows t ! i) = 1 - betabinom_pmf n (i + 1) (m - i) n
      \<and> sum_list (rows t ! i) < 1" if "i < m" for i
  proof -
    have ab: "1 \<le> i + 1" "1 \<le> m - i" using that by simp_all
    have "sum_list (rows t ! i) = 1 - betabinom_pmf n (i + 1) (m - i) n"
      using that betabinom_row_sum [OF ab, of n] by (simp add: t_def row_def)
    moreover have "0 < betabinom_pmf n (i + 1) (m - i) n"
      using ab by (intro betabinom_pmf_pos) simp_all
    ultimately show ?thesis by simp
  qed
  have "size0 t = m" "size1 t = n" by (simp_all add: t_def)
  with eq wf ent sm show ?thesis unfolding n_def m_def by blast
qed

theorem beta_binomial_rows_witness:
  "(1::int) \<le> 3 \<and> (1::int) \<le> 2
   \<and> beta_binomial_prior_distribution 3 2
       = Tensor2 \<lparr>size0 = 2, size1 = 3,
                  rows = [[2 / 5, 3 / 10, 1 / 5], [1 / 10, 1 / 5, 3 / 10]]\<rparr>
   \<and> betabinom_pmf 3 1 2 3 = 1 / 10"
proof -
  have ev: "beta_binomial_prior_distribution 3 2
       = Tensor2 \<lparr>size0 = 2, size1 = 3,
                  rows = [[2 / 5, 3 / 10, 1 / 5], [1 / 10, 1 / 5, 3 / 10]]\<rparr>"
    by code_simp
  from beta_binomial_rows [of 3 2] obtain t where
    t: "beta_binomial_prior_distribution 3 2 = Tensor2 t" and
    s: "\<forall>i. i < nat 2 \<longrightarrow>
           sum_list (rows t ! i) = 1 - betabinom_pmf (nat 3) (i + 1) (nat 2 - i) (nat 3)
           \<and> sum_list (rows t ! i) < 1"
    by auto
  from t ev have "t = \<lparr>size0 = 2, size1 = 3,
                  rows = [[2 / 5, 3 / 10, 1 / 5], [1 / 10, 1 / 5, 3 / 10]]\<rparr>" by simp
  then have "rows t = [[2 / 5, 3 / 10, 1 / 5], [1 / 10, 1 / 5, 3 / 10]]" by simp
  with s [rule_format, of 0] have "betabinom_pmf 3 1 2 3 = 1 / 10" by simp
  with ev show ?thesis by simp
qed

subsection \<open>The mel-spectrogram of a waveform\<close>

lemma compute_mel_not_mismatch: "compute_mel stft mwv audio \<noteq> Inl (SampleRateMismatch a b)"
  by (simp add: compute_mel_def Let_def split: option.splits)

text \<open>
  C9.  When the mel-spectrogram is computed from a waveform (\<open>load_mel_from_disk\<close> off)
  and the waveform is loaded with sample rate \<open>sr\<close>, \<open>get_mel\<close> raises the sample-rate
  mismatch error exactly when \<open>sr\<close> differs from the STFT's sample rate; on a match it
  returns what the computation of lines 247 to 252 gives, the mel-spectrogram the
  extractor computes from the waveform divided by \<open>max_wav_value\<close>.  No branch
  resamples.
\<close>

theorem get_mel_sample_rate:
  assumes "\<not> load_mel_from_disk self" "load_wav_to_torch e filename = Some (audio, sr)"
  shows "(get_mel e self fs filename = Inl (SampleRateMismatch sr (stft_sampling_rate self))
            \<longleftrightarrow> sr \<noteq> stft_sampling_rate self)
       \<and> (sr = stft_sampling_rate self \<longrightarrow>
            get_mel e self fs filename
              = compute_mel (mel_spectrogram e) (max_wav_value self) audio)
       \<and> (\<forall>v m. sr = stft_sampling_rate self \<and> max_wav_value self = Some v
                 \<and> mel_spectrogram e (map (\<lambda>x. x / v) audio) = Some m
              \<longrightarrow> get_mel e self fs filename = Inr m)"
proof -
  have g: "get_mel e self fs filename
      = (if sr \<noteq> stft_sampling_rate self
         then Inl (SampleRateMismatch sr (stft_sampling_rate self))
         else compute_mel (mel_spectrogram e) (max_wav_value self) audio)"
    using assms by (simp add: get_mel_def)
  have 1: "get_mel e self fs filename = Inl (SampleRateMismatch sr (stft_sampling_rate self))
            \<longleftrightarrow> sr \<noteq> stft_sampling_rate self"
    unfolding g by (simp add: compute_mel_not_mismatch)
  have 2: "sr = stft_sampling_rate self \<longrightarrow>
            get_mel e self fs filename
              = compute_mel (mel_spectrogram e) (max_wav_value self) audio"
    unfolding g by simp
  have 3: "\<forall>v m. sr = stft_sampling_rate self \<and> max_wav_value self = Some v
                 \<and> mel_spectrogram e (map (\<lambda>x. x / v) audio) = Some m
              \<longrightarrow> get_mel e self fs filename = Inr m"
    unfolding g by (simp add: compute_mel_def)
  from 1 2 3 show ?thesis by blast
qed

theorem get_mel_sample_rate_witness:
  "\<not> load_mel_from_disk dataset_wav
   \<and> load_wav_to_torch env0 ''wavs/a.wav'' = Some ([1, 2], 22050)
   \<and> get_mel env0 dataset_wav fs0 ''wavs/a.wav''
       = Inr \<lparr>shape = [2, 2], flat = [1 / 2, 1, 1 / 2, 1]\<rparr>
   \<and> get_mel env0 (dataset_wav\<lparr>stft_sampling_rate := 16000\<rparr>) fs0 ''wavs/a.wav''
       = Inl (SampleRateMismatch 22050 16000)"
proof -
  have a: "\<not> load_mel_from_disk dataset_wav" by code_simp
  have a': "\<not> load_mel_from_disk (dataset_wav\<lparr>stft_sampling_rate := 16000\<rparr>)" by code_simp
  have b: "load_wav_to_torch env0 ''wavs/a.wav'' = Some ([1, 2], 22050)" by code_simp
  have c: "stft_sampling_rate dataset_wav = 22050" by code_simp
  have d: "max_wav_value dataset_wav = Some 2" by code_simp
  have f: "mel_spectrogram env0 (map (\<lambda>x. x / 2) [1, 2])
      = Some \<lparr>shape = [2, 2], flat = [1 / 2, 1, 1 / 2, 1]\<rparr>"
    by code_simp
  note t = get_mel_sample_rate [OF a b, of fs0, THEN conjunct2, THEN conjunct2, rule_format,
      of 2 "\<lparr>shape = [2, 2], flat = [1 / 2, 1, 1 / 2, 1]\<rparr>"]
  have 1: "get_mel env0 dataset_wav fs0 ''wavs/a.wav''
      = Inr \<lparr>shape = [2, 2], flat = [1 / 2, 1, 1 / 2, 1]\<rparr>"
    by (rule t) (simp only: c d f simp_thms)
  note t' = get_mel_sample_rate [OF a' b, of fs0, THEN conjunct1]
  have 2: "get_mel env0 (dataset_wav\<lparr>stft_sampling_rate := 16000\<rparr>) fs0 ''wavs/a.wav''
      = Inl (SampleRateMismatch 22050 16000)"
    using t' by simp
  from a b 1 2 show ?thesis by blast
qed

subsection \<open>The interpolated prior\<close>

text \<open>
  C10.  With the interpolator enabled, \<open>get_prior\<close> returns what the interpolator gives
  for the pair of lengths and leaves the file system as it was; the result is the same
  for every index, every file system and every dataset with the same interpolator, a
  cache directory or not.
\<close>

theorem get_prior_interpolated:
  assumes "use_betabinomial_interpolator self"
  shows "get_prior e self fs index mel_len text_len
           = (interpolator_call e (betabinomial_interpolator self) mel_len text_len, fs)
       \<and> (\<forall>self' fs' index'.
             use_betabinomial_interpolator self'
             \<and> betabinomial_interpolator self' = betabinomial_interpolator self
             \<longrightarrow> fst (get_prior e self' fs' index' mel_len text_len)
                 = fst (get_prior e self fs index mel_len text_len))"
  using assms by (simp add: get_prior_def)

theorem get_prior_interpolated_witness:
  "use_betabinomial_interpolator dataset_interp
   \<and> betabinomial_tmp_dir dataset_interp = Some ''cache''
   \<and> fst (get_prior env0 dataset_interp fs0 0 1 1) = Inr \<lparr>shape = [1, 1], flat = [1]\<rparr>
   \<and> snd (get_prior env0 dataset_interp fs0 0 1 1) = fs0
   \<and> fst (get_prior env0 dataset_interp (torch_save fs0 \<lparr>shape = [1, 1], flat = [5]\<rparr> [''cache'', ''mels.pt'']) 1 1 1)
       = Inr \<lparr>shape = [1, 1], flat = [1]\<rparr>"
proof -
  have a: "use_betabinomial_interpolator dataset_interp" by code_simp
  have b: "betabinomial_tmp_dir dataset_interp = Some ''cache''" by code_simp
  have c: "interpolator_call env0 (betabinomial_interpolator dataset_interp) 1 1
      = Inr \<lparr>shape = [1, 1], flat = [1]\<rparr>"
    by code_simp
  note g = get_prior_interpolated [OF a, of env0]
  have 1: "fst (get_prior env0 dataset_interp fs0 0 1 1) = Inr \<lparr>shape = [1, 1], flat = [1]\<rparr>"
    using g [of fs0 0 1 1] c by simp
  have 2: "snd (get_prior env0 dataset_interp fs0 0 1 1) = fs0"
    using g [of fs0 0 1 1] by simp
  have 3: "fst (get_prior env0 dataset_interp (torch_save fs0 \<lparr>shape = [1, 1], flat = [5]\<rparr> [''cache'', ''mels.pt'']) 1 1 1)
       = Inr \<lparr>shape = [1, 1], flat = [1]\<rparr>"
    using g [of "torch_save fs0 \<lparr>shape = [1, 1], flat = [5]\<rparr> [''cache'', ''mels.pt'']" 1 1 1] c
    by simp
  from a b 1 2 3 show ?thesis by blast
qed

subsection \<open>The prior cached on disk\<close>

lemma with_suffix_last:
  assumes "with_suffix p sfx = Inr q"
  shows "q \<noteq> [] \<and> endswith (last q) sfx"
  using assms
  by (auto simp: with_suffix_def Let_def endswith_def split: if_splits option.splits)

lemma prior_cache_path_pt:
  assumes "prior_cache_path self tmp_dir index = Inr p"
  shows "p \<noteq> [] \<and> endswith (last p) ''.pt''"
proof -
  from assms obtain fname q where q: "with_suffix fname ''.pt'' = Inr q"
    and p: "p = path_join (Path tmp_dir) q"
    unfolding prior_cache_path_def
    by (auto elim!: bindE_InrE split: list.splits prod.splits)
  from with_suffix_last [OF q] show ?thesis
    by (auto simp: p path_join_def)
qed

lemma get_prior_at_cache_path:
  assumes "\<not> use_betabinomial_interpolator self"
    and "betabinomial_tmp_dir self = Some tmp_dir"
    and "prior_cache_path self tmp_dir index = Inr p"
  shows "(files fs p = None \<longrightarrow>
            get_prior e self fs index mel_len text_len
              = (Inr (to_nd (beta_binomial_prior_distribution text_len mel_len)),
                 save_cached fs (to_nd (beta_binomial_prior_distribution text_len mel_len)) p))
       \<and> (\<forall>t. files fs p = Some t \<longrightarrow>
            get_prior e self fs index mel_len text_len = (Inr t, fs))"
  using assms by (simp add: get_prior_def is_file_def torch_load_def Let_def)

lemma save_cached_files: "files (save_cached fs M p) = (files fs)(p \<mapsto> M)"
  by (simp add: save_cached_def torch_save_def mkdir_parents_def)

lemma get_prior_path_error:
  assumes "\<not> use_betabinomial_interpolator self"
    and "betabinomial_tmp_dir self = Some tmp_dir"
    and "prior_cache_path self tmp_dir index = Inl err"
  shows "get_prior e self fs index mel_len text_len = (Inl err, fs)"
  using assms by (simp add: get_prior_def)

text \<open>
  C2.  In disk-cached prior mode the cache file is not derived from the example's audio
  path.  Line 304 unpacks the entry, a dictionary, so \<open>audiopath\<close> is the entry's first
  key, \<^verbatim>\<open>'mels'\<close>.  The two entries of \<open>dataset_cached\<close> have the audio paths
  \<^verbatim>\<open>wavs/a.wav\<close> and \<^verbatim>\<open>wavs/b.wav\<close>, for which the specification's derivation gives
  \<^verbatim>\<open>cache/wavs/a.pt\<close> and \<^verbatim>\<open>cache/wavs/b.pt\<close>; the code gives \<^verbatim>\<open>cache/mels.pt\<close> for both.
  Once the prior of entry 0 (mel length 2, text length 1) is cached there, the prior
  returned for entry 1 (mel length 1, text length 1) is the matrix of entry 0, of shape
  \<open>(2, 1)\<close>, where the exact matrix has the shape \<open>(1, 1)\<close>.  With a dataset root
  (\<open>dataset_rooted\<close>) \<^verbatim>\<open>Path('mels').relative_to('data')\<close> raises \<^verbatim>\<open>ValueError\<close>, where the
  specification's derivation gives \<^verbatim>\<open>cache/wavs/a.pt\<close>.
\<close>

theorem get_prior_cache_path_first_key:
  "\<not> use_betabinomial_interpolator dataset_cached
   \<and> betabinomial_tmp_dir dataset_cached = Some ''cache''
   \<and> map_of (audiopaths_and_text dataset_cached ! 0) ''mels'' = Some ''wavs/a.wav''
   \<and> map_of (audiopaths_and_text dataset_cached ! 1) ''mels'' = Some ''wavs/b.wav''
   \<and> spec_prior_cache_path dataset_cached ''cache'' 0 = Inr [''cache'', ''wavs'', ''a.pt'']
   \<and> spec_prior_cache_path dataset_cached ''cache'' 1 = Inr [''cache'', ''wavs'', ''b.pt'']
   \<and> prior_cache_path dataset_cached ''cache'' 0 = Inr [''cache'', ''mels.pt'']
   \<and> prior_cache_path dataset_cached ''cache'' 1 = Inr [''cache'', ''mels.pt'']
   \<and> fst (get_prior env0 dataset_cached fs0 0 2 1)
       = Inr \<lparr>shape = [2, 1], flat = [2 / 3, 1 / 3]\<rparr>
   \<and> to_nd (beta_binomial_prior_distribution 1 1) = \<lparr>shape = [1, 1], flat = [1 / 2]\<rparr>
   \<and> fst (get_prior env0 dataset_cached (snd (get_prior env0 dataset_cached fs0 0 2 1)) 1 1 1)
       = Inr \<lparr>shape = [2, 1], flat = [2 / 3, 1 / 3]\<rparr>
   \<and> betabinomial_tmp_dir dataset_rooted = Some ''cache''
   \<and> spec_prior_cache_path dataset_rooted ''cache'' 0 = Inr [''cache'', ''wavs'', ''a.pt'']
   \<and> fst (get_prior env0 dataset_rooted fs0 0 2 1) = Inl ValueError"
proof -
  define fs1 where "fs1 = snd (get_prior env0 dataset_cached fs0 0 2 1)"
  define M where "M = \<lparr>shape = [2, 1], flat = [2 / 3, 1 / 3 :: real]\<rparr>"
  have a: "\<not> use_betabinomial_interpolator dataset_cached" by code_simp
  have b: "betabinomial_tmp_dir dataset_cached = Some ''cache''" by code_simp
  have k0: "map_of (audiopaths_and_text dataset_cached ! 0) ''mels'' = Some ''wavs/a.wav''"
    by code_simp
  have k1: "map_of (audiopaths_and_text dataset_cached ! 1) ''mels'' = Some ''wavs/b.wav''"
    by code_simp
  have s0: "spec_prior_cache_path dataset_cached ''cache'' 0 = Inr [''cache'', ''wavs'', ''a.pt'']"
    by code_simp
  have s1: "spec_prior_cache_path dataset_cached ''cache'' 1 = Inr [''cache'', ''wavs'', ''b.pt'']"
    by code_simp
  have c0: "prior_cache_path dataset_cached ''cache'' 0 = Inr [''cache'', ''mels.pt'']"
    by code_simp
  have c1: "prior_cache_path dataset_cached ''cache'' 1 = Inr [''cache'', ''mels.pt'']"
    by code_simp
  have d: "files fs0 [''cache'', ''mels.pt''] = None" by code_simp
  have m: "to_nd (beta_binomial_prior_distribution 1 2) = M"
    unfolding M_def by code_simp
  have m1: "to_nd (beta_binomial_prior_distribution 1 1) = \<lparr>shape = [1, 1], flat = [1 / 2]\<rparr>"
    by code_simp
  from get_prior_at_cache_path [OF a b c0, of fs0 env0 2 1] d m
  have g0: "get_prior env0 dataset_cached fs0 0 2 1 = (Inr M, save_cached fs0 M [''cache'', ''mels.pt''])"
    by simp
  have r1: "fst (get_prior env0 dataset_cached fs0 0 2 1) = Inr M"
    by (simp add: g0)
  have f1: "files fs1 [''cache'', ''mels.pt''] = Some M"
    unfolding fs1_def by (simp add: g0 save_cached_files)
  from get_prior_at_cache_path [OF a b c1, of fs1 env0 1 1] f1
  have r2: "fst (get_prior env0 dataset_cached fs1 1 1 1) = Inr M"
    by simp
  have a': "\<not> use_betabinomial_interpolator dataset_rooted" by code_simp
  have b': "betabinomial_tmp_dir dataset_rooted = Some ''cache''" by code_simp
  have s': "spec_prior_cache_path dataset_rooted ''cache'' 0 = Inr [''cache'', ''wavs'', ''a.pt'']"
    by code_simp
  have c': "prior_cache_path dataset_rooted ''cache'' 0 = Inl ValueError"
    by code_simp
  have r3: "fst (get_prior env0 dataset_rooted fs0 0 2 1) = Inl ValueError"
    by (simp add: get_prior_path_error [OF a' b' c'])
  from a b k0 k1 s0 s1 c0 c1 r1 m1 r2 b' s' r3 show ?thesis
    unfolding fs1_def M_def by blast
qed

subsection \<open>The per-item loader\<close>

lemma getitem_finish_Inr:
  assumes "getitem_finish e self fs index entry apath spk mel' text' text_info mel_T
             pitch0 energy' attn_prior' = Inr it"
  shows "size_last pitch0 = Inr mel_T
       \<and> item_mel it = mel' \<and> item_energy it = energy' \<and> item_text it = text'
       \<and> item_len_text it = length text'
       \<and> item_pitch it = (if length (shape pitch0) = 1 then unsqueeze0 pitch0 else pitch0)"
  using assms unfolding getitem_finish_def Let_def
  apply -
  apply ((erule bindE_InrE, clarsimp?)+)
  apply (clarsimp split: if_splits)
  apply ((erule bindE_InrE, clarsimp?)+)
  done

lemma getitem_inputs_Inr:
  assumes "getitem_inputs e self fs index = Inr (entry, apath, spk, mel', text', text_info, mel_T)"
  shows "size_last mel' = Inr mel_T"
  using assms unfolding getitem_inputs_def
  apply -
  apply ((erule bindE_InrE, clarsimp?)+)
  done

lemma getitem_Inr:
  assumes "getitem e self fs index = (Inr it, fs')"
  shows "\<exists>entry apath spk mel' text' text_info mel_T pitch0 fs1 attn_prior'.
           getitem_inputs e self fs index = Inr (entry, apath, spk, mel', text', text_info, mel_T)
         \<and> get_pitch e self fs index mel_T = (Inr pitch0, fs1)
         \<and> getitem_finish e self fs' index entry apath spk mel' text' text_info mel_T
              pitch0 (norm_dim0 mel') attn_prior' = Inr it"
  using assms unfolding getitem_def Let_def
  by (auto split: sum.splits prod.splits)

lemma norm_dim0_shape: "shape (norm_dim0 t) = tl (shape t)"
  by (simp add: norm_dim0_def Let_def split: list.splits)

lemma get_pitch_from_disk_fs:
  assumes "load_pitch_from_disk self"
  shows "snd (get_pitch e self fs index T) = fs"
  using assms by (simp add: get_pitch_def split: sum.splits prod.splits)

lemma get_prior_exact_fs:
  assumes "\<not> use_betabinomial_interpolator self" "betabinomial_tmp_dir self = None"
  shows "get_prior e self fs index mel_len text_len
           = (Inr (to_nd (beta_binomial_prior_distribution text_len mel_len)), fs)"
  using assms by (simp add: get_prior_def)

lemma norm_sample:
  "norm_dim0 \<lparr>shape = [2, 1], flat = [3, 4]\<rparr> = \<lparr>shape = [1], flat = [5]\<rparr>"
proof -
  have "sqrt ((3::real)\<^sup>2 + 4\<^sup>2) = sqrt (5\<^sup>2)" by simp
  then have "sqrt ((3::real)\<^sup>2 + 4\<^sup>2) = 5" by (simp only: real_sqrt_abs)
  then show ?thesis by (simp add: norm_dim0_def numeral_2_eq_2)
qed

lemma getitem_eval:
  assumes inp: "getitem_inputs env0 dataset0 fs0 i
                  = Inr (E, P, None, \<lparr>shape = [2, 1], flat = [3, 4]\<rparr>, tx, None, 1)"
    and gp: "fst (get_pitch env0 dataset0 fs0 i 1) = Inr p"
  shows "fst (getitem env0 dataset0 fs0 i)
     = getitem_finish env0 dataset0 fs0 i E P None \<lparr>shape = [2, 1], flat = [3, 4]\<rparr> tx None 1 p
         \<lparr>shape = [1], flat = [5]\<rparr>
         (to_nd (beta_binomial_prior_distribution (int (length tx)) 1))"
proof -
  have flags: "\<not> use_betabinomial_interpolator dataset0" "betabinomial_tmp_dir dataset0 = None"
    "load_pitch_from_disk dataset0"
    by code_simp+
  have gp': "get_pitch env0 dataset0 fs0 i 1 = (Inr p, fs0)"
    using gp get_pitch_from_disk_fs [OF flags(3), of env0 fs0 i 1]
    by (cases "get_pitch env0 dataset0 fs0 i 1") simp
  have sh: "shape_at \<lparr>shape = [2, 1], flat = [3, 4]\<rparr> 1 = Inr 1"
    by (simp add: shape_at_def)
  have pr: "get_prior env0 dataset0 fs0 i 1 (int (length tx))
      = (Inr (to_nd (beta_binomial_prior_distribution (int (length tx)) 1)), fs0)"
    by (rule get_prior_exact_fs [OF flags(1,2)])
  show ?thesis
    unfolding getitem_def inp
    by (simp only: sum.case prod.case Let_def fst_conv gp' norm_sample sh pr of_nat_1)
qed

lemma sample_finish:
  "getitem_finish env0 dataset0 fs i E P None M tx None 1 \<lparr>shape = [1], flat = pf\<rparr>
       \<lparr>shape = [1], flat = fl\<rparr> A
     = Inr \<lparr>item_text = tx, item_mel = M, item_len_text = length tx,
            item_pitch = \<lparr>shape = [1, 1], flat = pf\<rparr>,
            item_energy = \<lparr>shape = [1], flat = fl\<rparr>, item_speaker = None,
            item_attn_prior = A, item_audiopath = P, item_cwt_acc = None,
            item_ds_mel = None\<rparr>"
  "getitem_finish env0 dataset0 fs i E P None M tx None 1 \<lparr>shape = [1, 1, 1], flat = pf\<rparr>
       \<lparr>shape = [1], flat = fl\<rparr> A
     = Inr \<lparr>item_text = tx, item_mel = M, item_len_text = length tx,
            item_pitch = \<lparr>shape = [1, 1, 1], flat = pf\<rparr>,
            item_energy = \<lparr>shape = [1], flat = fl\<rparr>, item_speaker = None,
            item_attn_prior = A, item_audiopath = P, item_cwt_acc = None,
            item_ds_mel = None\<rparr>"
  "getitem_finish env0 dataset0 fs i E P None M tx None 1 \<lparr>shape = [2], flat = pf\<rparr>
       \<lparr>shape = [1], flat = fl\<rparr> A
     = Inl AssertionError"
  by code_simp+

lemma sample_inputs:
  "getitem_inputs env0 dataset0 fs0 0
      = Inr (audiopaths_and_text dataset0 ! 0, ''mels/a.pt'', None,
             \<lparr>shape = [2, 1], flat = [3, 4]\<rparr>, [97], None, 1)"
  "getitem_inputs env0 dataset0 fs0 1
      = Inr (audiopaths_and_text dataset0 ! 1, ''mels/a.pt'', None,
             \<lparr>shape = [2, 1], flat = [3, 4]\<rparr>, [98], None, 1)"
  "getitem_inputs env0 dataset0 fs0 2
      = Inr (audiopaths_and_text dataset0 ! 2, ''mels/a.pt'', None,
             \<lparr>shape = [2, 1], flat = [3, 4]\<rparr>, [99], None, 1)"
  by code_simp+

lemma sample_pitch:
  "fst (get_pitch env0 dataset0 fs0 0 1) = Inr \<lparr>shape = [1], flat = [7]\<rparr>"
  "fst (get_pitch env0 dataset0 fs0 1 1) = Inr \<lparr>shape = [1, 1, 1], flat = [7]\<rparr>"
  "fst (get_pitch env0 dataset0 fs0 2 1) = Inr \<lparr>shape = [2], flat = [7, 8]\<rparr>"
  by code_simp+

lemma sample_getitem:
  "map_sum id (\<lambda>it. (shape (item_pitch it), shape (item_energy it), shape (item_mel it)))
     (fst (getitem env0 dataset0 fs0 0)) = Inr ([1, 1], [1], [2, 1])"
  "map_sum id (\<lambda>it. (shape (item_pitch it), shape (item_energy it), shape (item_mel it)))
     (fst (getitem env0 dataset0 fs0 1)) = Inr ([1, 1, 1], [1], [2, 1])"
  "fst (getitem env0 dataset0 fs0 2) = Inl AssertionError"
  unfolding getitem_eval [OF sample_inputs(1) sample_pitch(1)]
    getitem_eval [OF sample_inputs(2) sample_pitch(2)]
    getitem_eval [OF sample_inputs(3) sample_pitch(3)] sample_finish
  by simp_all


text \<open>
  C7.  The claim fails for a pitch file that holds a tensor of three dimensions: the
  second entry of \<open>dataset0\<close> is loaded with a pitch of shape \<open>(1, 1, 1)\<close>.
\<close>

theorem getitem_pitch_rank_counterexample:
  "map_sum id (\<lambda>it. (shape (item_pitch it), shape (item_energy it), shape (item_mel it)))
     (fst (getitem env0 dataset0 fs0 1)) = Inr ([1, 1, 1], [1], [2, 1])"
  by (rule sample_getitem(2))

text \<open>
  C7 (amended).  Every item the per-item loader returns satisfies: with \<open>T\<close> the
  mel-spectrogram's last dimension, the pitch lookup returned a tensor whose last
  dimension is \<open>T\<close> (a mismatch fails the assertion); the item's pitch is that tensor,
  reshaped to \<open>(1, T)\<close> when it is 1-D and unchanged otherwise, so it has at least two
  dimensions and is \<open>(F, T)\<close> when the looked-up pitch is 2-D with \<open>F\<close> rows; the energy
  is the norm of the mel along its first axis, 1-D of length \<open>T\<close> for a 2-D mel.
\<close>

theorem getitem_shapes:
  assumes "getitem e self fs index = (Inr it, fs')"
  shows "\<exists>T pitch0 fs1.
           size_last (item_mel it) = Inr T
         \<and> get_pitch e self fs index T = (Inr pitch0, fs1)
         \<and> size_last pitch0 = Inr T
         \<and> item_pitch it = (if length (shape pitch0) = 1 then unsqueeze0 pitch0 else pitch0)
         \<and> 2 \<le> length (shape (item_pitch it))
         \<and> last (shape (item_pitch it)) = T
         \<and> (length (shape pitch0) = 1 \<longrightarrow> shape (item_pitch it) = [1, T])
         \<and> (length (shape pitch0) = 2 \<longrightarrow> shape (item_pitch it) = [hd (shape pitch0), T])
         \<and> item_energy it = norm_dim0 (item_mel it)
         \<and> shape (item_energy it) = tl (shape (item_mel it))
         \<and> (length (shape (item_mel it)) = 2 \<longrightarrow> shape (item_energy it) = [T])"
proof -
  from getitem_Inr [OF assms] obtain entry apath spk mel' text' text_info mel_T pitch0 fs1
      attn_prior' where
    inp: "getitem_inputs e self fs index = Inr (entry, apath, spk, mel', text', text_info, mel_T)" and
    gp: "get_pitch e self fs index mel_T = (Inr pitch0, fs1)" and
    fin: "getitem_finish e self fs' index entry apath spk mel' text' text_info mel_T
              pitch0 (norm_dim0 mel') attn_prior' = Inr it"
    by blast
  note f = getitem_finish_Inr [OF fin]
  have mT: "size_last mel' = Inr mel_T" by (rule getitem_inputs_Inr [OF inp])
  have mel: "item_mel it = mel'" and en: "item_energy it = norm_dim0 mel'"
    and pT: "size_last pitch0 = Inr mel_T"
    and pi: "item_pitch it = (if length (shape pitch0) = 1 then unsqueeze0 pitch0 else pitch0)"
    using f by simp_all
  have ne: "shape pitch0 \<noteq> []" and lastp: "last (shape pitch0) = mel_T"
    using pT by (auto simp: size_last_def split: if_splits)
  have nem: "shape mel' \<noteq> []" and lastm: "last (shape mel') = mel_T"
    using mT by (auto simp: size_last_def split: if_splits)
  have r2: "2 \<le> length (shape (item_pitch it))"
    using ne by (cases "shape pitch0") (auto simp: pi unsqueeze0_def Suc_le_eq)
  have r3: "last (shape (item_pitch it)) = mel_T"
    using ne lastp by (simp add: pi unsqueeze0_def)
  have r4: "length (shape pitch0) = 1 \<longrightarrow> shape (item_pitch it) = [1, mel_T]"
    using lastp by (cases "shape pitch0") (auto simp: pi unsqueeze0_def)
  have r5: "length (shape pitch0) = 2 \<longrightarrow> shape (item_pitch it) = [hd (shape pitch0), mel_T]"
  proof
    assume l: "length (shape pitch0) = 2"
    then obtain a b where ab: "shape pitch0 = [a, b]"
      by (cases "shape pitch0"; cases "tl (shape pitch0)") auto
    with lastp show "shape (item_pitch it) = [hd (shape pitch0), mel_T]"
      by (simp add: pi)
  qed
  have r6: "shape (item_energy it) = tl (shape (item_mel it))"
    by (simp add: en mel norm_dim0_shape)
  have r7: "length (shape (item_mel it)) = 2 \<longrightarrow> shape (item_energy it) = [mel_T]"
  proof
    assume l: "length (shape (item_mel it)) = 2"
    then obtain a b where ab: "shape mel' = [a, b]"
      unfolding mel by (cases "shape mel'"; cases "tl (shape mel')") auto
    with lastm show "shape (item_energy it) = [mel_T]"
      by (simp add: r6 mel)
  qed
  have r0: "size_last (item_mel it) = Inr mel_T" by (simp add: mel mT)
  have r8: "item_energy it = norm_dim0 (item_mel it)" by (simp add: en mel)
  show ?thesis
    by (intro exI [of _ mel_T] exI [of _ pitch0] exI [of _ fs1] conjI)
      (fact r0 gp pT pi r2 r3 r4 r5 r8 r6 r7)+
qed


theorem getitem_shapes_witness:
  "map_sum id (\<lambda>it. (shape (item_pitch it), shape (item_energy it), shape (item_mel it)))
     (fst (getitem env0 dataset0 fs0 0)) = Inr ([1, 1], [1], [2, 1])
   \<and> fst (getitem env0 dataset0 fs0 2) = Inl AssertionError"
proof -
  define it0 where "it0 = projr (fst (getitem env0 dataset0 fs0 0))"
  have e0: "fst (getitem env0 dataset0 fs0 0) = Inr it0"
    unfolding it0_def getitem_eval [OF sample_inputs(1) sample_pitch(1)] sample_finish by simp
  then obtain fs' where g: "getitem env0 dataset0 fs0 0 = (Inr it0, fs')"
    by (cases "getitem env0 dataset0 fs0 0") simp
  have m: "shape (item_mel it0) = [2, 1]"
    unfolding it0_def getitem_eval [OF sample_inputs(1) sample_pitch(1)] sample_finish by simp
  from getitem_shapes [OF g] obtain T pitch0 fs1 where
    T: "size_last (item_mel it0) = Inr T" and
    gp: "get_pitch env0 dataset0 fs0 0 T = (Inr pitch0, fs1)" and
    p1: "length (shape pitch0) = 1 \<longrightarrow> shape (item_pitch it0) = [1, T]" and
    en: "length (shape (item_mel it0)) = 2 \<longrightarrow> shape (item_energy it0) = [T]"
    by blast
  from T m have T1: "T = 1" by (simp add: size_last_def)
  from gp sample_pitch(1) have "pitch0 = \<lparr>shape = [1], flat = [7]\<rparr>" by (simp add: T1)
  with p1 have "shape (item_pitch it0) = [1, 1]" by (simp add: T1)
  moreover from en m have "shape (item_energy it0) = [1]" by (simp add: T1)
  ultimately have "map_sum id (\<lambda>it. (shape (item_pitch it), shape (item_energy it), shape (item_mel it)))
     (fst (getitem env0 dataset0 fs0 0)) = Inr ([1, 1], [1], [2, 1])"
    by (simp add: e0 m)
  with sample_getitem(3) show ?thesis by blast
qed

end
